theory Spec2Isabelle
  imports Complex_Main "HOL-Library.AList"
begin

section \<open>Conversion of 2dfdr reduced images to per-object spectra\<close>

text \<open>
  A shallow embedding of \<^verbatim>\<open>convert/tdfdr.py\<close>. Python exceptions are values of the
  type \<open>error\<close>, and every function that can raise returns \<open>error + 'a\<close> with
  \<open>Inl\<close> for the raised exception. Floating-point header values are idealised as
  real numbers. A FITS header is the ordered list of the cards the program reads and
  writes: keyword, value and comment. The structural cards that the container library
  keeps by itself (SIMPLE, XTENSION, BITPIX, NAXIS and the like) are not part of the
  model.
\<close>

subsection \<open>Values, errors and the error monad\<close>

datatype hval = HStr string | HInt int | HNum real | HBool bool

datatype error =
    KeyError string
  | ValueError string
  | IndexError
  | TypeError
  | AttributeError
  | AssertionError
  | IOError
  | MotionError string

definition bindE :: "error + 'a \<Rightarrow> ('a \<Rightarrow> error + 'b) \<Rightarrow> error + 'b" where
  "bindE m f = (case m of Inl e \<Rightarrow> Inl e | Inr x \<Rightarrow> f x)"

fun mapE :: "('a \<Rightarrow> error + 'b) \<Rightarrow> 'a list \<Rightarrow> error + 'b list" where
  "mapE f [] = Inr []"
| "mapE f (x # xs) = bindE (f x) (\<lambda>y. bindE (mapE f xs) (\<lambda>ys. Inr (y # ys)))"

subsection \<open>Headers\<close>

type_synonym card = "string \<times> hval \<times> string"
type_synonym header = "card list"

text \<open>\<^verbatim>\<open>header[key]\<close>: the value of the first card with that keyword.\<close>

definition hget :: "string \<Rightarrow> header \<Rightarrow> error + hval" where
  "hget k h = (case map_of h k of None \<Rightarrow> Inl (KeyError k) | Some (v, c) \<Rightarrow> Inr v)"

text \<open>\<^verbatim>\<open>header.comments[key]\<close>.\<close>

definition hcomment :: "string \<Rightarrow> header \<Rightarrow> error + string" where
  "hcomment k h = (case map_of h k of None \<Rightarrow> Inl (KeyError k) | Some (v, c) \<Rightarrow> Inr c)"

text \<open>
  \<^verbatim>\<open>header[key] = value\<close>: an existing card keeps its place and its comment, a new
  card is appended with an empty comment.
\<close>

definition hset :: "string \<Rightarrow> hval \<Rightarrow> header \<Rightarrow> header" where
  "hset k v h =
     AList.update k (v, case map_of h k of None \<Rightarrow> [] | Some (v', c) \<Rightarrow> c) h"

text \<open>\<^verbatim>\<open>header.comments[key] = comment\<close>: the card must exist.\<close>

definition hset_comment :: "string \<Rightarrow> string \<Rightarrow> header \<Rightarrow> error + header" where
  "hset_comment k c h =
     (case map_of h k of
        None \<Rightarrow> Inl (KeyError k)
      | Some (v, c') \<Rightarrow> Inr (AList.update k (v, c) h))"

text \<open>\<^verbatim>\<open>header.set(key, value, comment)\<close>.\<close>

definition hset_card :: "string \<Rightarrow> hval \<Rightarrow> string \<Rightarrow> header \<Rightarrow> header" where
  "hset_card k v c h = AList.update k (v, c) h"

text \<open>\<^verbatim>\<open>del header[key]\<close>: removes every card with that keyword, which must exist.\<close>

definition hdel :: "string \<Rightarrow> header \<Rightarrow> error + header" where
  "hdel k h = (if k \<in> fst ` set h then Inr (AList.delete k h) else Inl (KeyError k))"

fun hdel_all :: "string list \<Rightarrow> header \<Rightarrow> error + header" where
  "hdel_all [] h = Inr h"
| "hdel_all (k # ks) h = bindE (hdel k h) (hdel_all ks)"

text \<open>
  \<^verbatim>\<open>header["HISTORY"] = text\<close>: HISTORY is a commentary keyword, so the assignment
  adds a card and overwrites none.
\<close>

definition hadd_history :: "string \<Rightarrow> header \<Rightarrow> header" where
  "hadd_history txt h = h @ [(''HISTORY'', HStr txt, [])]"

text \<open>
  \<^verbatim>\<open>value * factor\<close> for a float factor: numbers (and booleans) multiply to a
  float, a string raises.
\<close>

fun hmul :: "hval \<Rightarrow> real \<Rightarrow> error + hval" where
  "hmul (HNum r) f = Inr (HNum (r * f))"
| "hmul (HInt n) f = Inr (HNum (of_int n * f))"
| "hmul (HBool b) f = Inr (HNum ((if b then 1 else 0) * f))"
| "hmul (HStr s) f = Inl TypeError"

text \<open>\<^verbatim>\<open>header[key] *= factor\<close>.\<close>

definition himul :: "string \<Rightarrow> real \<Rightarrow> header \<Rightarrow> error + header" where
  "himul k f h = bindE (hget k h) (\<lambda>v. bindE (hmul v f) (\<lambda>v'. Inr (hset k v' h)))"

subsection \<open>Strings\<close>

definition is_space :: "char \<Rightarrow> bool" where
  "is_space c = (c \<in> set [CHR '' '', CHR 0x09, CHR 0x0A, CHR 0x0B, CHR 0x0C, CHR 0x0D])"

definition strip :: "string \<Rightarrow> string" where
  "strip s = rev (dropWhile is_space (rev (dropWhile is_space s)))"

text \<open>\<^verbatim>\<open>str.strip(x)\<close>, the unbound method: a type error on a non-string.\<close>

fun str_strip :: "hval \<Rightarrow> error + string" where
  "str_strip (HStr s) = Inr (strip s)"
| "str_strip v = Inl TypeError"

text \<open>\<^verbatim>\<open>x.strip()\<close>: an attribute error on a non-string.\<close>

fun strip_method :: "hval \<Rightarrow> error + string" where
  "strip_method (HStr s) = Inr (strip s)"
| "strip_method v = Inl AttributeError"

text \<open>\<^verbatim>\<open>s.split(" ")[0]\<close>.\<close>

definition first_token :: "string \<Rightarrow> string" where
  "first_token s = takeWhile (\<lambda>c. c \<noteq> CHR '' '') s"

text \<open>\<^verbatim>\<open>xs.index(x)\<close>.\<close>

fun index_from :: "nat \<Rightarrow> string \<Rightarrow> string list \<Rightarrow> error + nat" where
  "index_from n x [] = Inl (ValueError x)"
| "index_from n x (y # ys) = (if y = x then Inr n else index_from (Suc n) x ys)"

definition index_of :: "string \<Rightarrow> string list \<Rightarrow> error + nat" where
  "index_of x xs = index_from 0 x xs"

subsection \<open>The exposure and the output extensions\<close>

text \<open>
  An extension of the input holds an image (rows are fibres) or a table (stored by
  column, every column with one value per fibre).
\<close>

datatype payload =
    ImageData "real list list"
  | TableData "(string \<times> hval list) list"
  | NoData

record in_hdu =
  ihdr :: header
  idata :: payload

type_synonym image = "in_hdu list"

record out_hdu =
  ohdr :: header
  odata :: "real list option"

record extensions =
  ext_data :: nat
  ext_variance :: nat
  ext_fibres :: nat

text \<open>
  What the program takes from outside: the file system behind \<^verbatim>\<open>fits.open\<close>, the
  \<^verbatim>\<open>motions\<close> module, the unit conversions of velocity quantities of type \<open>'q\<close>
  (\<open>to_kms q\<close> is \<^verbatim>\<open>q.to("km/s").value\<close>, \<open>over_c q\<close> is
  \<^verbatim>\<open>(q/speed_of_light).value\<close>), the checksum algorithm with its timestamp comment,
  and the commit hash read when the module is loaded.
\<close>

record 'q env =
  fits_open :: "string \<Rightarrow> error + image"
  motions_from_header :: "header \<Rightarrow> error + ('q \<times> 'q)"
  to_kms :: "'q \<Rightarrow> real"
  over_c :: "'q \<Rightarrow> real"
  datasum :: "real list option \<Rightarrow> string"
  checksum :: "header \<Rightarrow> real list option \<Rightarrow> string"
  checksum_comment :: string
  WG6_GIT_HASH :: string

definition WG6_VER :: real where
  "WG6_VER = 64 / 10"

definition nth_hdu :: "image \<Rightarrow> nat \<Rightarrow> error + in_hdu" where
  "nth_hdu img i = (if i < length img then Inr (img ! i) else Inl IndexError)"

text \<open>\<^verbatim>\<open>data[name]\<close> on the payload of an extension.\<close>

definition table_column :: "payload \<Rightarrow> string \<Rightarrow> error + hval list" where
  "table_column d k =
     (case d of
        TableData cols \<Rightarrow>
          (case map_of cols k of None \<Rightarrow> Inl (KeyError k) | Some vs \<Rightarrow> Inr vs)
      | ImageData rows \<Rightarrow> Inl IndexError
      | NoData \<Rightarrow> Inl TypeError)"

text \<open>\<^verbatim>\<open>data[i][name]\<close>.\<close>

definition table_field :: "payload \<Rightarrow> nat \<Rightarrow> string \<Rightarrow> error + hval" where
  "table_field d i k =
     bindE (table_column d k)
       (\<lambda>vs. if i < length vs then Inr (vs ! i) else Inl IndexError)"

text \<open>\<^verbatim>\<open>data[i, :]\<close>.\<close>

definition image_row :: "payload \<Rightarrow> nat \<Rightarrow> error + real list" where
  "image_row d i =
     (case d of
        ImageData rows \<Rightarrow> (if i < length rows then Inr (rows ! i) else Inl IndexError)
      | TableData cols \<Rightarrow> Inl IndexError
      | NoData \<Rightarrow> Inl TypeError)"

subsection \<open>\<^verbatim>\<open>get_ccd_number\<close>, \<^verbatim>\<open>verify_hermes_origin\<close>, \<^verbatim>\<open>read_2dfdr_extensions\<close>\<close>

definition ccd_table :: "string \<Rightarrow> error + int" where
  "ccd_table name =
     (if name = ''BLUE'' then Inr 1
      else if name = ''GREEN'' then Inr 2
      else if name = ''RED'' then Inr 3
      else if name = ''IR'' then Inr 4
      else Inl (KeyError name))"

definition get_ccd_number :: "image \<Rightarrow> error + (int \<times> string)" where
  "get_ccd_number img =
     bindE (nth_hdu img 0) (\<lambda>p.
     bindE (hcomment ''SPLYTEMP'' (ihdr p)) (\<lambda>c.
     bindE (ccd_table (first_token c)) (\<lambda>ccd_number.
     Inr (ccd_number, first_token c))))"

definition verify_hermes_origin :: "image \<Rightarrow> error + unit" where
  "verify_hermes_origin img =
     bindE (nth_hdu img 0) (\<lambda>p.
     bindE (hget ''ORIGIN'' (ihdr p)) (\<lambda>v.
     bindE (strip_method v) (\<lambda>s.
     if s \<noteq> ''AAO'' then Inl AssertionError
     else
       bindE (nth_hdu img 0) (\<lambda>p.
       bindE (hget ''INSTRUME'' (ihdr p)) (\<lambda>v.
       bindE (strip_method v) (\<lambda>s.
       if s \<noteq> ''HERMES-2dF'' then Inl AssertionError else Inr ()))))))"

text \<open>\<^verbatim>\<open>hdu.header.get("EXTNAME", "")\<close>.\<close>

definition extname_or_empty :: "in_hdu \<Rightarrow> hval" where
  "extname_or_empty hdu =
     (case map_of (ihdr hdu) ''EXTNAME'' of None \<Rightarrow> HStr [] | Some (v, c) \<Rightarrow> v)"

definition read_2dfdr_extensions :: "image \<Rightarrow> error + extensions" where
  "read_2dfdr_extensions img =
     bindE (mapE str_strip (map extname_or_empty img)) (\<lambda>extnames.
     bindE (index_of ''VARIANCE'' extnames) (\<lambda>v.
     bindE (index_of ''FIBRES'' extnames) (\<lambda>f.
     Inr \<lparr>ext_data = 0, ext_variance = v, ext_fibres = f\<rparr>)))"

subsection \<open>Checksums and the placeholder extensions\<close>

text \<open>
  \<^verbatim>\<open>hdu.add_checksum()\<close>: the data sum is written first, the checksum card is set
  to sixteen zeros, and the checksum of the extension in that state replaces the zeros.
\<close>

definition zero_checksum :: hval where
  "zero_checksum = HStr (replicate 16 CHR ''0'')"

definition add_checksum :: "'q env \<Rightarrow> out_hdu \<Rightarrow> out_hdu" where
  "add_checksum env hdu =
     (let h1 = hset_card ''DATASUM'' (HStr (datasum env (odata hdu)))
                 (checksum_comment env) (ohdr hdu);
          h2 = hset_card ''CHECKSUM'' zero_checksum (checksum_comment env) h1
      in hdu\<lparr>ohdr := hset ''CHECKSUM'' (HStr (checksum env h2 (odata hdu))) h2\<rparr>)"

text \<open>
  Recomputing the sums of an extension as it stands: what a reader of the file does to
  find out whether the extension changed after it was sealed.
\<close>

definition checksum_ok :: "'q env \<Rightarrow> out_hdu \<Rightarrow> bool" where
  "checksum_ok env hdu =
     (hget ''DATASUM'' (ohdr hdu) = Inr (HStr (datasum env (odata hdu))) \<and>
      hget ''CHECKSUM'' (ohdr hdu) =
        Inr (HStr (checksum env (hset ''CHECKSUM'' zero_checksum (ohdr hdu)) (odata hdu))))"

definition wave_keys :: "string list" where
  "wave_keys = [''CRVAL1'', ''CDELT1'', ''CRPIX1'', ''CTYPE1'', ''CUNIT1'']"

text \<open>
  The loop \<^verbatim>\<open>for key in (...): dst[key] = src[key]; dst.comments[key] = src.comments[key]\<close>.
\<close>

fun copy_keys :: "string list \<Rightarrow> header \<Rightarrow> header \<Rightarrow> error + header" where
  "copy_keys [] src dst = Inr dst"
| "copy_keys (k # ks) src dst =
     bindE (hget k src) (\<lambda>v.
     bindE (hcomment k src) (\<lambda>c.
     bindE (hset_comment k c (hset k v dst)) (\<lambda>dst'.
     copy_keys ks src dst')))"

text \<open>
  One placeholder of \<^verbatim>\<open>dummy_normalisation_hdus\<close>; the source writes the same
  statements twice, for the flux and for the sigma.
\<close>

definition dummy_normalised ::
  "'q env \<Rightarrow> out_hdu list option \<Rightarrow> string \<Rightarrow> string \<Rightarrow> error + out_hdu" where
  "dummy_normalised env hdulist name comment =
     bindE (case hdulist of
              None \<Rightarrow> Inr []
            | Some l \<Rightarrow> (if l = [] then Inl IndexError
                         else copy_keys wave_keys (ohdr (l ! 0)) [])) (\<lambda>h.
     bindE (hset_comment ''EXTNAME'' comment (hset ''EXTNAME'' (HStr name) h)) (\<lambda>h'.
     Inr (add_checksum env \<lparr>ohdr = h', odata = None\<rparr>)))"

definition dummy_normalisation_hdus ::
  "'q env \<Rightarrow> out_hdu list option \<Rightarrow> error + out_hdu list" where
  "dummy_normalisation_hdus env hdulist =
     bindE (dummy_normalised env hdulist ''normalised_spectrum''
              ''Normalised spectrum flux'') (\<lambda>hdu_normed_flux.
     bindE (dummy_normalised env hdulist ''normalised_sigma''
              ''Normalised flux sigma'') (\<lambda>hdu_normed_sigma.
     Inr [hdu_normed_flux, hdu_normed_sigma]))"

definition default_headers :: "(string \<times> string) list" where
  "default_headers =
     [(''VRAD'', ''Radial velocity (km/s)''),
      (''U_VRAD'', ''Uncertainty on radial velocity (km/s)''),
      (''TEFF'', ''Effective temperature''),
      (''LOGG'', ''Surface gravity''),
      (''FE_H'', ''Metallicity ([Fe/H])''),
      (''ALPHA_FE'', ''Alpha-enhancement ([alpha/Fe])'')]"

fun set_defaults :: "(string \<times> string) list \<Rightarrow> header \<Rightarrow> error + header" where
  "set_defaults [] h = Inr h"
| "set_defaults ((key, comment) # kcs) h =
     bindE (hset_comment key comment (hset key (HStr ''NaN'') h)) (set_defaults kcs)"

definition dummy_ccf_hdu :: "'q env \<Rightarrow> out_hdu list option \<Rightarrow> error + out_hdu" where
  "dummy_ccf_hdu env hdulist =
     bindE (hset_comment ''EXTNAME'' ''CCF from best-fitting template''
              (hset ''EXTNAME'' (HStr ''CCF'') [])) (\<lambda>h.
     bindE (set_defaults default_headers h) (\<lambda>h'.
     Inr (add_checksum env \<lparr>ohdr = h', odata = None\<rparr>)))"

subsection \<open>\<^verbatim>\<open>from_2dfdr\<close>\<close>

text \<open>
  The list \<^verbatim>\<open>keywords\<close> of the source is \<open>keyword_list\<close> here; its entries are bare
  strings or pairs of strings.
\<close>

datatype keyword = Plain string | Pair string string

definition keyword_list :: "keyword list" where
  "keyword_list =
     [Plain ''NAME'', Plain ''RA'', Plain ''DEC'', Plain ''PMRA'', Plain ''PMDEC'',
      Pair ''MAGNITUDE'' ''MAG'', Pair ''COMMENT'' ''DESCR'']"

definition keyword_comments :: "(string \<times> string) list" where
  "keyword_comments =
     [(''NAME'', ''Input source name''),
      (''DESCR'', ''Input source comment''),
      (''MAG'', ''Input source magnitude''),
      (''RA'', ''Right Ascension (degrees)''),
      (''DEC'', ''Declination (degrees)''),
      (''PMRA'', ''Proper motion in RA (mas/yr)''),
      (''PMDEC'', ''Proper motion in DEC (mas/yr)''),
      (''FIBRE'', ''Fibre number'')]"

text \<open>Lines 156 to 166: the header shared by all objects of the exposure.\<close>

definition header_template :: "'q env \<Rightarrow> image \<Rightarrow> extensions \<Rightarrow> error + header" where
  "header_template env img ext =
     bindE (nth_hdu img (ext_data ext)) (\<lambda>p.
     bindE (hdel_all [''CDELT2'', ''CRPIX2'', ''CRVAL2'', ''CTYPE2'', ''CUNIT2'']
              (ihdr p)) (\<lambda>h0.
     bindE (get_ccd_number img) (\<lambda>(ccd_number, ccd_name).
     bindE (hset_comment ''CCD'' (ccd_name @ '' camera'')
              (hset ''CCD'' (HInt ccd_number) h0)) (\<lambda>h1.
     bindE (hset_comment ''WG6_VER'' ''WG6 standardisation code version''
              (hset ''WG6_HASH'' (HStr (WG6_GIT_HASH env))
                 (hset ''WG6_VER'' (HNum WG6_VER) h1))) (\<lambda>h2.
     hset_comment ''WG6_HASH'' ''WG6 standardisation commit hash'' h2)))))"

text \<open>\<^verbatim>\<open>np.where(types == "P")[0]\<close>.\<close>

definition program_indices :: "hval list \<Rightarrow> nat list" where
  "program_indices types = filter (\<lambda>i. types ! i = HStr ''P'') [0..<length types]"

text \<open>The loop over \<^verbatim>\<open>keywords\<close>, lines 178 to 183.\<close>

fun copy_keywords :: "payload \<Rightarrow> nat \<Rightarrow> keyword list \<Rightarrow> header \<Rightarrow> error + header" where
  "copy_keywords fibres i [] h = Inr h"
| "copy_keywords fibres i (Plain k # ks) h =
     bindE (table_field fibres i k) (\<lambda>v. copy_keywords fibres i ks (hset k v h))"
| "copy_keywords fibres i (Pair from_keyword to_keyword # ks) h =
     bindE (table_field fibres i from_keyword)
       (\<lambda>v. copy_keywords fibres i ks (hset to_keyword v h))"

text \<open>\<^verbatim>\<open>"RA" in keywords and "DEC" in keywords\<close>: a string equals no pair.\<close>

definition ra_dec_in :: "keyword list \<Rightarrow> bool" where
  "ra_dec_in kws = (Plain ''RA'' \<in> set kws \<and> Plain ''DEC'' \<in> set kws)"

text \<open>Lines 186 to 188.\<close>

definition radians_to_degrees :: "keyword list \<Rightarrow> header \<Rightarrow> error + header" where
  "radians_to_degrees kws h =
     (if ra_dec_in kws
      then bindE (himul ''RA'' (180 / pi) h) (himul ''DEC'' (180 / pi))
      else Inr h)"

fun set_comments :: "(string \<times> string) list \<Rightarrow> header \<Rightarrow> error + header" where
  "set_comments [] h = Inr h"
| "set_comments ((keyword, comment) # kcs) h =
     bindE (hset_comment keyword comment h) (set_comments kcs)"

text \<open>Lines 173 to 192: the header of one object.\<close>

definition object_header :: "header \<Rightarrow> payload \<Rightarrow> nat \<Rightarrow> error + header" where
  "object_header tmpl fibres program_index =
     bindE (copy_keywords fibres program_index keyword_list
              (hset ''FIBRE'' (HInt (int program_index + 1)) tmpl)) (\<lambda>h.
     bindE (radians_to_degrees keyword_list h) (\<lambda>h'.
     set_comments keyword_comments h'))"

text \<open>Lines 195 to 207: the headers of the flux and of the sigma extension.\<close>

definition flux_sigma_headers :: "header \<Rightarrow> error + (header \<times> header)" where
  "flux_sigma_headers hdr =
     bindE (hset_comment ''EXTNAME'' ''Spectrum flux''
              (hset ''EXTNAME'' (HStr ''input_spectrum'') hdr)) (\<lambda>fh.
     bindE (copy_keys wave_keys fh []) (\<lambda>sh.
     bindE (hset_comment ''EXTNAME'' ''Flux sigma''
              (hset ''EXTNAME'' (HStr ''input_sigma'') sh)) (\<lambda>sh'.
     Inr (fh, sh'))))"

text \<open>Lines 212 to 216.\<close>

definition velocity_fields :: "'q env \<Rightarrow> 'q \<Rightarrow> 'q \<Rightarrow> header \<Rightarrow> error + header" where
  "velocity_fields env v_bary v_helio fh =
     bindE (hset_comment ''V_BARY'' ''Barycentric motion (km/s)''
              (hset ''V_HELIO'' (HNum (to_kms env v_helio))
                 (hset ''V_BARY'' (HNum (to_kms env v_bary)) fh))) (\<lambda>h.
     bindE (hset_comment ''V_HELIO'' ''Heliocentric motion (km/s)'' h) (\<lambda>h'.
     Inr (hadd_history ''Corrected for barycentric motion (V_BARY)'' h')))"

text \<open>The body of the loop of lines 219 to 221, for one header.\<close>

definition doppler :: "real \<Rightarrow> header \<Rightarrow> error + header" where
  "doppler beta h =
     bindE (himul ''CRVAL1'' (1 + beta) h) (himul ''CDELT1'' (1 + beta))"

text \<open>Lines 224 to 230.\<close>

definition assemble ::
  "'q env \<Rightarrow> bool \<Rightarrow> out_hdu \<Rightarrow> out_hdu \<Rightarrow> error + out_hdu list" where
  "assemble env dummy_hdus hdu_flux hdu_sigma =
     (let hdulist = map (add_checksum env) [hdu_flux, hdu_sigma] in
      if dummy_hdus
      then bindE (dummy_normalisation_hdus env (Some hdulist)) (\<lambda>ns.
           bindE (dummy_ccf_hdu env (Some (hdulist @ ns))) (\<lambda>ccf.
           Inr (hdulist @ ns @ [ccf])))
      else Inr hdulist)"

text \<open>The body of the loop over the program objects, lines 171 to 230.\<close>

definition extract_source ::
  "'q env \<Rightarrow> image \<Rightarrow> extensions \<Rightarrow> header \<Rightarrow> bool \<Rightarrow> nat \<Rightarrow> error + out_hdu list" where
  "extract_source env img ext tmpl dummy_hdus program_index =
     bindE (nth_hdu img (ext_data ext)) (\<lambda>d.
     bindE (image_row (idata d) program_index) (\<lambda>flux.
     bindE (nth_hdu img (ext_variance ext)) (\<lambda>vr.
     bindE (image_row (idata vr) program_index) (\<lambda>variance.
     bindE (nth_hdu img (ext_fibres ext)) (\<lambda>fb.
     bindE (object_header tmpl (idata fb) program_index) (\<lambda>hdr.
     bindE (flux_sigma_headers hdr) (\<lambda>(fh, sh).
     bindE (motions_from_header env hdr) (\<lambda>(v_bary, v_helio).
     bindE (velocity_fields env v_bary v_helio fh) (\<lambda>fh'.
     bindE (doppler (over_c env v_bary) fh') (\<lambda>fh''.
     bindE (doppler (over_c env v_bary) sh) (\<lambda>sh''.
     assemble env dummy_hdus
       \<lparr>ohdr = fh'', odata = Some flux\<rparr>
       \<lparr>ohdr = sh'', odata = Some (map sqrt variance)\<rparr>)))))))))))"

fun extract_all ::
  "'q env \<Rightarrow> image \<Rightarrow> extensions \<Rightarrow> header \<Rightarrow> bool \<Rightarrow> nat list
     \<Rightarrow> error + out_hdu list list" where
  "extract_all env img ext tmpl dummy_hdus [] = Inr []"
| "extract_all env img ext tmpl dummy_hdus (i # js) =
     bindE (extract_source env img ext tmpl dummy_hdus i) (\<lambda>hdulist.
     bindE (extract_all env img ext tmpl dummy_hdus js) (\<lambda>rest.
     Inr (hdulist # rest)))"

text \<open>Lines 138 to 232: everything between opening and closing the file.\<close>

definition convert_image :: "'q env \<Rightarrow> image \<Rightarrow> bool \<Rightarrow> error + out_hdu list list" where
  "convert_image env img dummy_hdus =
     bindE (read_2dfdr_extensions img) (\<lambda>ext.
     bindE (verify_hermes_origin img) (\<lambda>u.
     bindE (header_template env img ext) (\<lambda>tmpl.
     bindE (nth_hdu img (ext_fibres ext)) (\<lambda>fb.
     bindE (table_column (idata fb) ''TYPE'') (\<lambda>types.
     extract_all env img ext tmpl dummy_hdus (program_indices types))))))"

text \<open>
  The state of the file handle when control is back at the caller. No statement of
  \<^verbatim>\<open>from_2dfdr\<close> catches an exception, so \<^verbatim>\<open>image.close()\<close> runs only when nothing
  was raised.
\<close>

datatype file_state = NotOpened | Opened | Closed

definition from_2dfdr ::
  "'q env \<Rightarrow> string \<Rightarrow> bool \<Rightarrow> (error + out_hdu list list) \<times> file_state" where
  "from_2dfdr env reduced_filename dummy_hdus =
     (case fits_open env reduced_filename of
        Inl e \<Rightarrow> (Inl e, NotOpened)
      | Inr img \<Rightarrow>
          (case convert_image env img dummy_hdus of
             Inl e \<Rightarrow> (Inl e, Opened)
           | Inr extracted_sources \<Rightarrow> (Inr extracted_sources, Closed)))"

subsection \<open>What a caller can observe of the exposure\<close>

text \<open>The catalogue table that \<^verbatim>\<open>from_2dfdr\<close> reads, and its column of type codes.\<close>

definition fibre_table :: "image \<Rightarrow> error + payload" where
  "fibre_table img =
     bindE (read_2dfdr_extensions img) (\<lambda>ext.
     bindE (nth_hdu img (ext_fibres ext)) (\<lambda>fb. Inr (idata fb)))"

definition fibre_types :: "image \<Rightarrow> error + hval list" where
  "fibre_types img = bindE (fibre_table img) (\<lambda>t. table_column t ''TYPE'')"

text \<open>The header that is handed to the motion service for the fibre with index \<open>i\<close>.\<close>

definition motion_header :: "'q env \<Rightarrow> image \<Rightarrow> nat \<Rightarrow> error + header" where
  "motion_header env img i =
     bindE (read_2dfdr_extensions img) (\<lambda>ext.
     bindE (header_template env img ext) (\<lambda>tmpl.
     bindE (nth_hdu img (ext_fibres ext)) (\<lambda>fb.
     object_header tmpl (idata fb) i)))"

subsection \<open>A small exposure: one sky fibre and one program fibre\<close>

definition ex_primary_header :: header where
  "ex_primary_header =
     [(''ORIGIN'', HStr ''AAO'', []),
      (''INSTRUME'', HStr ''HERMES-2dF '', []),
      (''SPLYTEMP'', HNum 10, ''GREEN spectrograph''),
      (''CRVAL1'', HNum 4700, ''Co-ordinate value of axis 1''),
      (''CDELT1'', HNum (1 / 20), ''Co-ordinate increment along axis 1''),
      (''CRPIX1'', HInt 1, ''Reference pixel along axis 1''),
      (''CTYPE1'', HStr ''Wavelength'', ''Label for axis 1''),
      (''CUNIT1'', HStr ''Angstroms'', ''Units for axis 1''),
      (''CRVAL2'', HNum 0, []),
      (''CDELT2'', HNum 1, []),
      (''CRPIX2'', HInt 1, []),
      (''CTYPE2'', HStr ''Fibre Number'', []),
      (''CUNIT2'', HStr [], [])]"

definition ex_fibres :: payload where
  "ex_fibres =
     TableData
       [(''NAME'', [HStr ''sky'', HStr ''star'']),
        (''RA'', [HNum 0, HNum pi]),
        (''DEC'', [HNum 0, HNum (pi / 2)]),
        (''TYPE'', [HStr ''S'', HStr ''P'']),
        (''PMRA'', [HNum 0, HNum 3]),
        (''PMDEC'', [HNum 0, HNum (- 2)]),
        (''MAGNITUDE'', [HNum 0, HNum 12]),
        (''COMMENT'', [HStr [], HStr ''target''])]"

definition ex_image_with :: "header \<Rightarrow> image" where
  "ex_image_with primary =
     [\<lparr>ihdr = primary, idata = ImageData [[1, 2], [3, 5]]\<rparr>,
      \<lparr>ihdr = [(''EXTNAME'', HStr ''VARIANCE'', [])], idata = ImageData [[1, 1], [4, 1]]\<rparr>,
      \<lparr>ihdr = [(''EXTNAME'', HStr ''FIBRES  '', [])], idata = ex_fibres\<rparr>]"

definition ex_image :: image where
  "ex_image = ex_image_with ex_primary_header"

definition ex_env :: "real env" where
  "ex_env =
     \<lparr>fits_open = (\<lambda>f. if f = ''combined.fits'' then Inr ex_image else Inl IOError),
      motions_from_header = (\<lambda>h. Inr (299792458 / 10000000, 10)),
      to_kms = (\<lambda>q. q),
      over_c = (\<lambda>q. q / (299792458 / 1000)),
      datasum = (\<lambda>d. ''0''),
      checksum = (\<lambda>h d. ''sum''),
      checksum_comment = ''stamp'',
      WG6_GIT_HASH = ''abc1234''\<rparr>"

definition ex_ext :: extensions where
  "ex_ext = \<lparr>ext_data = 0, ext_variance = 1, ext_fibres = 2\<rparr>"

definition ex_template :: header where
  "ex_template =
     [(''ORIGIN'', HStr ''AAO'', []),
      (''INSTRUME'', HStr ''HERMES-2dF '', []),
      (''SPLYTEMP'', HNum 10, ''GREEN spectrograph''),
      (''CRVAL1'', HNum 4700, ''Co-ordinate value of axis 1''),
      (''CDELT1'', HNum (1 / 20), ''Co-ordinate increment along axis 1''),
      (''CRPIX1'', HInt 1, ''Reference pixel along axis 1''),
      (''CTYPE1'', HStr ''Wavelength'', ''Label for axis 1''),
      (''CUNIT1'', HStr ''Angstroms'', ''Units for axis 1''),
      (''CCD'', HInt 2, ''GREEN camera''),
      (''WG6_VER'', HNum (64 / 10), ''WG6 standardisation code version''),
      (''WG6_HASH'', HStr ''abc1234'', ''WG6 standardisation commit hash'')]"

definition ex_bad_channel :: image where
  "ex_bad_channel =
     ex_image_with (hset_card ''SPLYTEMP'' (HNum 10) ''PURPLE spectrograph'' ex_primary_header)"

definition ex_header :: header where
  "ex_header =
     ex_template @
     [(''FIBRE'', HInt 2, ''Fibre number''),
      (''NAME'', HStr ''star'', ''Input source name''),
      (''RA'', HNum 180, ''Right Ascension (degrees)''),
      (''DEC'', HNum 90, ''Declination (degrees)''),
      (''PMRA'', HNum 3, ''Proper motion in RA (mas/yr)''),
      (''PMDEC'', HNum (- 2), ''Proper motion in DEC (mas/yr)''),
      (''MAG'', HNum 12, ''Input source magnitude''),
      (''DESCR'', HStr ''target'', ''Input source comment'')]"

definition ex_wave_cards :: header where
  "ex_wave_cards =
     [(''CRVAL1'', HNum (4700 * (10001 / 10000)), ''Co-ordinate value of axis 1''),
      (''CDELT1'', HNum (1 / 20 * (10001 / 10000)), ''Co-ordinate increment along axis 1''),
      (''CRPIX1'', HInt 1, ''Reference pixel along axis 1''),
      (''CTYPE1'', HStr ''Wavelength'', ''Label for axis 1''),
      (''CUNIT1'', HStr ''Angstroms'', ''Units for axis 1'')]"

definition ex_sums :: header where
  "ex_sums = [(''DATASUM'', HStr ''0'', ''stamp''), (''CHECKSUM'', HStr ''sum'', ''stamp'')]"

definition ex_flux_hdu :: out_hdu where
  "ex_flux_hdu =
     \<lparr>ohdr =
        [(''ORIGIN'', HStr ''AAO'', []),
         (''INSTRUME'', HStr ''HERMES-2dF '', []),
         (''SPLYTEMP'', HNum 10, ''GREEN spectrograph'')] @
        ex_wave_cards @
        [(''CCD'', HInt 2, ''GREEN camera''),
         (''WG6_VER'', HNum (64 / 10), ''WG6 standardisation code version''),
         (''WG6_HASH'', HStr ''abc1234'', ''WG6 standardisation commit hash''),
         (''FIBRE'', HInt 2, ''Fibre number''),
         (''NAME'', HStr ''star'', ''Input source name''),
         (''RA'', HNum 180, ''Right Ascension (degrees)''),
         (''DEC'', HNum 90, ''Declination (degrees)''),
         (''PMRA'', HNum 3, ''Proper motion in RA (mas/yr)''),
         (''PMDEC'', HNum (- 2), ''Proper motion in DEC (mas/yr)''),
         (''MAG'', HNum 12, ''Input source magnitude''),
         (''DESCR'', HStr ''target'', ''Input source comment''),
         (''EXTNAME'', HStr ''input_spectrum'', ''Spectrum flux''),
         (''V_BARY'', HNum (299792458 / 10000000), ''Barycentric motion (km/s)''),
         (''V_HELIO'', HNum 10, ''Heliocentric motion (km/s)''),
         (''HISTORY'', HStr ''Corrected for barycentric motion (V_BARY)'', [])] @
        ex_sums,
      odata = Some [3, 5]\<rparr>"

definition ex_sigma_hdu :: out_hdu where
  "ex_sigma_hdu =
     \<lparr>ohdr = ex_wave_cards @ [(''EXTNAME'', HStr ''input_sigma'', ''Flux sigma'')] @ ex_sums,
      odata = Some [2, 1]\<rparr>"

definition ex_normed_flux :: out_hdu where
  "ex_normed_flux =
     \<lparr>ohdr = ex_wave_cards @
         [(''EXTNAME'', HStr ''normalised_spectrum'', ''Normalised spectrum flux'')] @ ex_sums,
      odata = None\<rparr>"

definition ex_normed_sigma :: out_hdu where
  "ex_normed_sigma =
     \<lparr>ohdr = ex_wave_cards @
         [(''EXTNAME'', HStr ''normalised_sigma'', ''Normalised flux sigma'')] @ ex_sums,
      odata = None\<rparr>"

definition ex_ccf :: out_hdu where
  "ex_ccf =
     \<lparr>ohdr =
        [(''EXTNAME'', HStr ''CCF'', ''CCF from best-fitting template''),
         (''VRAD'', HStr ''NaN'', ''Radial velocity (km/s)''),
         (''U_VRAD'', HStr ''NaN'', ''Uncertainty on radial velocity (km/s)''),
         (''TEFF'', HStr ''NaN'', ''Effective temperature''),
         (''LOGG'', HStr ''NaN'', ''Surface gravity''),
         (''FE_H'', HStr ''NaN'', ''Metallicity ([Fe/H])''),
         (''ALPHA_FE'', HStr ''NaN'', ''Alpha-enhancement ([alpha/Fe])'')] @ ex_sums,
      odata = None\<rparr>"

definition ex_env_motion_fails :: "real env" where
  "ex_env_motion_fails =
     ex_env\<lparr>motions_from_header := (\<lambda>h. Inl (MotionError ''no ephemeris''))\<rparr>"

definition ex_wrong_instrument :: image where
  "ex_wrong_instrument =
     ex_image_with (hset_card ''INSTRUME'' (HStr ''UVES'') [] ex_primary_header)"

definition ex_no_variance :: image where
  "ex_no_variance = [hd ex_wrong_instrument]"

definition ex_env_with :: "image \<Rightarrow> real env" where
  "ex_env_with img = ex_env\<lparr>fits_open := (\<lambda>f. Inr img)\<rparr>"

definition catalog_field :: "image \<Rightarrow> nat \<Rightarrow> string \<Rightarrow> error + hval" where
  "catalog_field img i k = bindE (fibre_table img) (\<lambda>t. table_field t i k)"

definition object_keys :: "string list" where
  "object_keys =
     [''V_BARY'', ''V_HELIO'', ''HISTORY'', ''NAME'', ''RA'', ''DEC'', ''PMRA'', ''PMDEC'',
      ''MAG'', ''DESCR'', ''FIBRE'']"

section \<open>Properties of the header operations and of the stages\<close>

lemma bindE_Inl [simp]: "bindE (Inl e) f = Inl e"
  by (simp add: bindE_def)

lemma bindE_Inr [simp]: "bindE (Inr x) f = f x"
  by (simp add: bindE_def)

lemma bindE_Inr_iff: "bindE m f = Inr y \<longleftrightarrow> (\<exists>x. m = Inr x \<and> f x = Inr y)"
  by (cases m) simp_all

lemma map_of_hset:
  "map_of (hset k v h) =
     (map_of h)(k \<mapsto> (v, case map_of h k of None \<Rightarrow> [] | Some (v', c) \<Rightarrow> c))"
  by (simp add: hset_def update_conv')

lemma map_of_hset_card: "map_of (hset_card k v c h) = (map_of h)(k \<mapsto> (v, c))"
  by (simp add: hset_card_def update_conv')

lemma hset_comment_InrD:
  "hset_comment k c h = Inr h' \<Longrightarrow>
     \<exists>v c0. map_of h k = Some (v, c0) \<and> map_of h' = (map_of h)(k \<mapsto> (v, c))"
  by (auto simp add: hset_comment_def update_conv' split: option.splits)

lemma hset_then_comment:
  "hset_comment k c (hset k v h) = Inr h' \<Longrightarrow> map_of h' = (map_of h)(k \<mapsto> (v, c))"
  by (auto simp add: map_of_hset dest!: hset_comment_InrD)

lemma hset_then_comment_ok: "\<exists>h'. hset_comment k c (hset k v h) = Inr h'"
  by (simp add: hset_comment_def map_of_hset)

lemma hget_Inr_iff: "hget k h = Inr v \<longleftrightarrow> (\<exists>c. map_of h k = Some (v, c))"
  by (auto simp add: hget_def split: option.splits)

lemma hcomment_Inr_iff: "hcomment k h = Inr c \<longleftrightarrow> (\<exists>v. map_of h k = Some (v, c))"
  by (auto simp add: hcomment_def split: option.splits)

lemma himul_InrD:
  "himul k f h = Inr h' \<Longrightarrow>
     \<exists>v c v'. map_of h k = Some (v, c) \<and> hmul v f = Inr v' \<and>
       map_of h' = (map_of h)(k \<mapsto> (v', c))"
  by (auto simp add: himul_def bindE_Inr_iff hget_Inr_iff map_of_hset)

lemma map_of_hadd_history:
  "map_of (hadd_history txt h) k =
     (if k = ''HISTORY'' \<and> map_of h k = None then Some (HStr txt, []) else map_of h k)"
  by (auto simp add: hadd_history_def map_add_def split: option.splits)

lemma hdel_InrD: "hdel k h = Inr h' \<Longrightarrow> map_of h' = (map_of h)(k := None)"
  by (auto simp add: hdel_def delete_conv' split: if_splits)

lemma map_of_add_checksum:
  "map_of (ohdr (add_checksum env hdu)) =
     (map_of (ohdr hdu))
       (''DATASUM'' \<mapsto> (HStr (datasum env (odata hdu)), checksum_comment env),
        ''CHECKSUM'' \<mapsto>
          (HStr (checksum env
             (hset_card ''CHECKSUM'' zero_checksum (checksum_comment env)
               (hset_card ''DATASUM'' (HStr (datasum env (odata hdu)))
                  (checksum_comment env) (ohdr hdu)))
             (odata hdu)), checksum_comment env))"
  by (simp add: add_checksum_def Let_def map_of_hset map_of_hset_card)

lemma odata_add_checksum [simp]: "odata (add_checksum env hdu) = odata hdu"
  by (simp add: add_checksum_def Let_def)

lemma update_update_same: "AList.update k a (AList.update k b h) = AList.update k a h"
  by (induction h) auto

lemma checksum_ok_add_checksum: "checksum_ok env (add_checksum env hdu)"
  apply (simp add: checksum_ok_def hget_Inr_iff map_of_add_checksum)
  apply (simp add: add_checksum_def Let_def hset_def hset_card_def update_update_same update_conv')
  done

lemma ra_dec_in_keyword_list: "ra_dec_in keyword_list"
  by (simp add: ra_dec_in_def keyword_list_def)

lemma copy_keywords_list:
  assumes "copy_keywords fibres i keyword_list h = Inr h'"
  shows "\<exists>name ra dec pmra pmdec mag descr.
     table_field fibres i ''NAME'' = Inr name \<and>
     table_field fibres i ''RA'' = Inr ra \<and>
     table_field fibres i ''DEC'' = Inr dec \<and>
     table_field fibres i ''PMRA'' = Inr pmra \<and>
     table_field fibres i ''PMDEC'' = Inr pmdec \<and>
     table_field fibres i ''MAGNITUDE'' = Inr mag \<and>
     table_field fibres i ''COMMENT'' = Inr descr \<and>
     h' = hset ''DESCR'' descr (hset ''MAG'' mag (hset ''PMDEC'' pmdec
            (hset ''PMRA'' pmra (hset ''DEC'' dec (hset ''RA'' ra
               (hset ''NAME'' name h))))))"
  using assms by (auto simp add: keyword_list_def bindE_Inr_iff)

lemma set_comments_InrD:
  "set_comments kcs h = Inr h' \<Longrightarrow> distinct (map fst kcs) \<Longrightarrow>
     map_of h' k =
       (case map_of kcs k of
          None \<Rightarrow> map_of h k
        | Some c \<Rightarrow> map_option (\<lambda>(v, c0). (v, c)) (map_of h k))"
proof (induction kcs arbitrary: h)
  case Nil
  then show ?case by simp
next
  case (Cons kc kcs)
  obtain k0 c0 where kc: "kc = (k0, c0)" by (cases kc)
  from Cons.prems kc obtain h1 where
    h1: "hset_comment k0 c0 h = Inr h1" and rest: "set_comments kcs h1 = Inr h'"
    by (auto simp add: bindE_Inr_iff)
  from hset_comment_InrD [OF h1] obtain v c1 where
    m: "map_of h k0 = Some (v, c1)" "map_of h1 = (map_of h)(k0 \<mapsto> (v, c0))"
    by blast
  from Cons.prems kc have d: "distinct (map fst kcs)" and fresh: "map_of kcs k0 = None"
    by (auto simp add: map_of_eq_None_iff)
  have ih: "map_of h' k =
       (case map_of kcs k of
          None \<Rightarrow> map_of h1 k
        | Some c \<Rightarrow> map_option (\<lambda>(v, c0). (v, c)) (map_of h1 k))"
    by (rule Cons.IH [OF rest d])
  show ?case
  proof (cases "k = k0")
    case True
    with ih fresh m kc show ?thesis by simp
  next
    case False
    with m have "map_of h1 k = map_of h k" by simp
    with ih False kc show ?thesis by (simp split: option.splits)
  qed
qed

lemma object_header_map:
  assumes "object_header tmpl fibres i = Inr hdr"
  shows "\<exists>name ra dec pmra pmdec mag descr ra' dec'.
     table_field fibres i ''NAME'' = Inr name \<and>
     table_field fibres i ''RA'' = Inr ra \<and>
     table_field fibres i ''DEC'' = Inr dec \<and>
     table_field fibres i ''PMRA'' = Inr pmra \<and>
     table_field fibres i ''PMDEC'' = Inr pmdec \<and>
     table_field fibres i ''MAGNITUDE'' = Inr mag \<and>
     table_field fibres i ''COMMENT'' = Inr descr \<and>
     hmul ra (180 / pi) = Inr ra' \<and> hmul dec (180 / pi) = Inr dec' \<and>
     map_of hdr = (map_of tmpl)
       (''FIBRE'' \<mapsto> (HInt (int i + 1), ''Fibre number''),
        ''NAME'' \<mapsto> (name, ''Input source name''),
        ''RA'' \<mapsto> (ra', ''Right Ascension (degrees)''),
        ''DEC'' \<mapsto> (dec', ''Declination (degrees)''),
        ''PMRA'' \<mapsto> (pmra, ''Proper motion in RA (mas/yr)''),
        ''PMDEC'' \<mapsto> (pmdec, ''Proper motion in DEC (mas/yr)''),
        ''MAG'' \<mapsto> (mag, ''Input source magnitude''),
        ''DESCR'' \<mapsto> (descr, ''Input source comment''))"
proof -
  from assms obtain h1 h2 where
    s1: "copy_keywords fibres i keyword_list
           (hset ''FIBRE'' (HInt (int i + 1)) tmpl) = Inr h1" and
    s2: "radians_to_degrees keyword_list h1 = Inr h2" and
    s3: "set_comments keyword_comments h2 = Inr hdr"
    by (auto simp add: object_header_def bindE_Inr_iff)
  from copy_keywords_list [OF s1] obtain name ra dec pmra pmdec mag descr where
    f: "table_field fibres i ''NAME'' = Inr name"
       "table_field fibres i ''RA'' = Inr ra"
       "table_field fibres i ''DEC'' = Inr dec"
       "table_field fibres i ''PMRA'' = Inr pmra"
       "table_field fibres i ''PMDEC'' = Inr pmdec"
       "table_field fibres i ''MAGNITUDE'' = Inr mag"
       "table_field fibres i ''COMMENT'' = Inr descr" and
    h1: "h1 = hset ''DESCR'' descr (hset ''MAG'' mag (hset ''PMDEC'' pmdec
            (hset ''PMRA'' pmra (hset ''DEC'' dec (hset ''RA'' ra
               (hset ''NAME'' name (hset ''FIBRE'' (HInt (int i + 1)) tmpl)))))))"
    by blast
  from s2 obtain h1a where
    a: "himul ''RA'' (180 / pi) h1 = Inr h1a" and b: "himul ''DEC'' (180 / pi) h1a = Inr h2"
    by (auto simp add: radians_to_degrees_def ra_dec_in_keyword_list bindE_Inr_iff)
  from himul_InrD [OF a] obtain v c ra' where
    ra: "map_of h1 ''RA'' = Some (v, c)" "hmul v (180 / pi) = Inr ra'"
        "map_of h1a = (map_of h1)(''RA'' \<mapsto> (ra', c))"
    by blast
  from himul_InrD [OF b] obtain w d dec' where
    dec: "map_of h1a ''DEC'' = Some (w, d)" "hmul w (180 / pi) = Inr dec'"
        "map_of h2 = (map_of h1a)(''DEC'' \<mapsto> (dec', d))"
    by blast
  from ra(1) h1 have v: "v = ra" by (simp add: map_of_hset)
  from dec(1) ra(3) h1 have w: "w = dec" by (simp add: map_of_hset)
  have dk: "distinct (map fst keyword_comments)"
    by (simp add: keyword_comments_def)
  have "map_of hdr k = ((map_of tmpl)
       (''FIBRE'' \<mapsto> (HInt (int i + 1), ''Fibre number''),
        ''NAME'' \<mapsto> (name, ''Input source name''),
        ''RA'' \<mapsto> (ra', ''Right Ascension (degrees)''),
        ''DEC'' \<mapsto> (dec', ''Declination (degrees)''),
        ''PMRA'' \<mapsto> (pmra, ''Proper motion in RA (mas/yr)''),
        ''PMDEC'' \<mapsto> (pmdec, ''Proper motion in DEC (mas/yr)''),
        ''MAG'' \<mapsto> (mag, ''Input source magnitude''),
        ''DESCR'' \<mapsto> (descr, ''Input source comment''))) k" for k
    unfolding set_comments_InrD [OF s3 dk] dec(3) ra(3) h1
    by (simp add: keyword_comments_def map_of_hset)
  then have "map_of hdr = (map_of tmpl)
       (''FIBRE'' \<mapsto> (HInt (int i + 1), ''Fibre number''),
        ''NAME'' \<mapsto> (name, ''Input source name''),
        ''RA'' \<mapsto> (ra', ''Right Ascension (degrees)''),
        ''DEC'' \<mapsto> (dec', ''Declination (degrees)''),
        ''PMRA'' \<mapsto> (pmra, ''Proper motion in RA (mas/yr)''),
        ''PMDEC'' \<mapsto> (pmdec, ''Proper motion in DEC (mas/yr)''),
        ''MAG'' \<mapsto> (mag, ''Input source magnitude''),
        ''DESCR'' \<mapsto> (descr, ''Input source comment''))"
    by (rule ext)
  with f ra(2) dec(2) v w show ?thesis by blast
qed

lemma copy_keys_InrD:
  "copy_keys ks src dst = Inr dst' \<Longrightarrow> distinct ks \<Longrightarrow>
     (\<forall>k\<in>set ks. map_of src k \<noteq> None) \<and>
     (\<forall>k. map_of dst' k = (if k \<in> set ks then map_of src k else map_of dst k))"
proof (induction ks arbitrary: dst)
  case Nil
  then show ?case by simp
next
  case (Cons k0 ks)
  from Cons.prems(1) obtain v c d1 where
    v: "hget k0 src = Inr v" and c: "hcomment k0 src = Inr c" and
    d1: "hset_comment k0 c (hset k0 v dst) = Inr d1" and
    rest: "copy_keys ks src d1 = Inr dst'"
    by (auto simp add: bindE_Inr_iff)
  from v c have src: "map_of src k0 = Some (v, c)"
    by (auto simp add: hget_Inr_iff hcomment_Inr_iff)
  have m1: "map_of d1 = (map_of dst)(k0 \<mapsto> (v, c))"
    by (rule hset_then_comment [OF d1])
  from Cons.prems(2) have d: "distinct ks" and fresh: "k0 \<notin> set ks" by simp_all
  from Cons.IH [OF rest d] have
    ih1: "\<forall>k\<in>set ks. map_of src k \<noteq> None" and
    ih2: "\<forall>k. map_of dst' k = (if k \<in> set ks then map_of src k else map_of d1 k)"
    by blast+
  from ih1 src have "\<forall>k\<in>set (k0 # ks). map_of src k \<noteq> None" by simp
  moreover from ih2 m1 src fresh
  have "\<forall>k. map_of dst' k = (if k \<in> set (k0 # ks) then map_of src k else map_of dst k)"
    by auto
  ultimately show ?case by blast
qed

lemma flux_sigma_headers_InrD:
  assumes "flux_sigma_headers hdr = Inr (fh, sh)"
  shows "map_of fh = (map_of hdr)(''EXTNAME'' \<mapsto> (HStr ''input_spectrum'', ''Spectrum flux''))"
    and "\<forall>k\<in>set wave_keys. map_of hdr k \<noteq> None"
    and "map_of sh k =
           (if k = ''EXTNAME'' then Some (HStr ''input_sigma'', ''Flux sigma'')
            else if k \<in> set wave_keys then map_of hdr k else None)"
proof -
  from assms obtain s0 where
    fh: "hset_comment ''EXTNAME'' ''Spectrum flux''
           (hset ''EXTNAME'' (HStr ''input_spectrum'') hdr) = Inr fh" and
    s0: "copy_keys wave_keys fh [] = Inr s0" and
    sh: "hset_comment ''EXTNAME'' ''Flux sigma''
           (hset ''EXTNAME'' (HStr ''input_sigma'') s0) = Inr sh"
    by (auto simp add: flux_sigma_headers_def bindE_Inr_iff)
  show m: "map_of fh = (map_of hdr)(''EXTNAME'' \<mapsto> (HStr ''input_spectrum'', ''Spectrum flux''))"
    by (rule hset_then_comment [OF fh])
  have dw: "distinct wave_keys" by (simp add: wave_keys_def)
  from copy_keys_InrD [OF s0 dw] have
    a: "\<forall>k\<in>set wave_keys. map_of fh k \<noteq> None" and
    b: "\<forall>k. map_of s0 k = (if k \<in> set wave_keys then map_of fh k else None)"
    by simp_all
  from a m show "\<forall>k\<in>set wave_keys. map_of hdr k \<noteq> None"
    by (auto simp add: wave_keys_def)
  have "map_of sh = (map_of s0)(''EXTNAME'' \<mapsto> (HStr ''input_sigma'', ''Flux sigma''))"
    by (rule hset_then_comment [OF sh])
  with b m show "map_of sh k =
           (if k = ''EXTNAME'' then Some (HStr ''input_sigma'', ''Flux sigma'')
            else if k \<in> set wave_keys then map_of hdr k else None)"
    by (auto simp add: wave_keys_def)
qed

lemma velocity_fields_InrD:
  assumes "velocity_fields env v_bary v_helio fh = Inr fh'"
  shows "map_of fh' k =
     (if k = ''HISTORY'' then
        (case map_of fh ''HISTORY'' of
           None \<Rightarrow> Some (HStr ''Corrected for barycentric motion (V_BARY)'', [])
         | Some x \<Rightarrow> Some x)
      else ((map_of fh)
        (''V_BARY'' \<mapsto> (HNum (to_kms env v_bary), ''Barycentric motion (km/s)''),
         ''V_HELIO'' \<mapsto> (HNum (to_kms env v_helio), ''Heliocentric motion (km/s)''))) k)"
proof -
  from assms obtain h1 h2 where
    h1: "hset_comment ''V_BARY'' ''Barycentric motion (km/s)''
              (hset ''V_HELIO'' (HNum (to_kms env v_helio))
                 (hset ''V_BARY'' (HNum (to_kms env v_bary)) fh)) = Inr h1" and
    h2: "hset_comment ''V_HELIO'' ''Heliocentric motion (km/s)'' h1 = Inr h2" and
    fh': "fh' = hadd_history ''Corrected for barycentric motion (V_BARY)'' h2"
    by (auto simp add: velocity_fields_def bindE_Inr_iff)
  from hset_comment_InrD [OF h1] obtain v c where
    a: "map_of h1 = (map_of (hset ''V_HELIO'' (HNum (to_kms env v_helio))
                 (hset ''V_BARY'' (HNum (to_kms env v_bary)) fh)))(''V_BARY'' \<mapsto> (v, ''Barycentric motion (km/s)''))"
    and a': "map_of (hset ''V_HELIO'' (HNum (to_kms env v_helio))
                 (hset ''V_BARY'' (HNum (to_kms env v_bary)) fh)) ''V_BARY'' = Some (v, c)"
    by blast
  from a' have v: "v = HNum (to_kms env v_bary)" by (simp add: map_of_hset)
  from hset_comment_InrD [OF h2] obtain w d where
    b: "map_of h2 = (map_of h1)(''V_HELIO'' \<mapsto> (w, ''Heliocentric motion (km/s)''))"
    and b': "map_of h1 ''V_HELIO'' = Some (w, d)"
    by blast
  from b' a have w: "w = HNum (to_kms env v_helio)" by (simp add: map_of_hset)
  show ?thesis
    unfolding fh' map_of_hadd_history b a v w
    by (simp add: map_of_hset split: option.splits)
qed

lemma doppler_InrD:
  assumes "doppler beta h = Inr h'"
  shows "\<exists>v c v' d cd d'.
     map_of h ''CRVAL1'' = Some (v, c) \<and> hmul v (1 + beta) = Inr v' \<and>
     map_of h ''CDELT1'' = Some (d, cd) \<and> hmul d (1 + beta) = Inr d' \<and>
     map_of h' = (map_of h)(''CRVAL1'' \<mapsto> (v', c), ''CDELT1'' \<mapsto> (d', cd))"
proof -
  from assms obtain h1 where
    a: "himul ''CRVAL1'' (1 + beta) h = Inr h1" and b: "himul ''CDELT1'' (1 + beta) h1 = Inr h'"
    by (auto simp add: doppler_def bindE_Inr_iff)
  from himul_InrD [OF a] obtain v c v' where
    1: "map_of h ''CRVAL1'' = Some (v, c)" "hmul v (1 + beta) = Inr v'"
       "map_of h1 = (map_of h)(''CRVAL1'' \<mapsto> (v', c))"
    by blast
  from himul_InrD [OF b] obtain d cd d' where
    2: "map_of h1 ''CDELT1'' = Some (d, cd)" "hmul d (1 + beta) = Inr d'"
       "map_of h' = (map_of h1)(''CDELT1'' \<mapsto> (d', cd))"
    by blast
  from 2(1) 1(3) have "map_of h ''CDELT1'' = Some (d, cd)" by simp
  with 1 2 show ?thesis by simp
qed

lemma set_defaults_other:
  "set_defaults kcs h = Inr h' \<Longrightarrow> k \<notin> fst ` set kcs \<Longrightarrow> map_of h' k = map_of h k"
proof (induction kcs arbitrary: h)
  case Nil
  then show ?case by simp
next
  case (Cons kc kcs)
  obtain k0 c0 where kc: "kc = (k0, c0)" by (cases kc)
  from Cons.prems kc obtain h1 where
    h1: "hset_comment k0 c0 (hset k0 (HStr ''NaN'') h) = Inr h1" and
    rest: "set_defaults kcs h1 = Inr h'"
    by (auto simp add: bindE_Inr_iff)
  from Cons.prems(2) kc have "k \<noteq> k0" "k \<notin> fst ` set kcs" by auto
  with Cons.IH [OF rest] hset_then_comment [OF h1] show ?case by simp
qed

lemma dummy_normalised_InrD:
  assumes "dummy_normalised env hdulist name comment = Inr hdu"
  shows "\<exists>h. hdu = add_checksum env \<lparr>ohdr = h, odata = None\<rparr> \<and>
             hget ''EXTNAME'' h = Inr (HStr name)"
proof -
  from assms obtain h0 h where
    h: "hset_comment ''EXTNAME'' comment (hset ''EXTNAME'' (HStr name) h0) = Inr h" and
    hdu: "hdu = add_checksum env \<lparr>ohdr = h, odata = None\<rparr>"
    by (auto simp add: dummy_normalised_def bindE_Inr_iff)
  from hset_then_comment [OF h] have "hget ''EXTNAME'' h = Inr (HStr name)"
    by (simp add: hget_Inr_iff)
  with hdu show ?thesis by blast
qed

lemma dummy_ccf_hdu_InrD:
  assumes "dummy_ccf_hdu env hdulist = Inr hdu"
  shows "\<exists>h. hdu = add_checksum env \<lparr>ohdr = h, odata = None\<rparr> \<and>
             hget ''EXTNAME'' h = Inr (HStr ''CCF'')"
proof -
  from assms obtain h0 h where
    h0: "hset_comment ''EXTNAME'' ''CCF from best-fitting template''
              (hset ''EXTNAME'' (HStr ''CCF'') []) = Inr h0" and
    h: "set_defaults default_headers h0 = Inr h" and
    hdu: "hdu = add_checksum env \<lparr>ohdr = h, odata = None\<rparr>"
    by (auto simp add: dummy_ccf_hdu_def bindE_Inr_iff)
  have "''EXTNAME'' \<notin> fst ` set default_headers"
    by (simp add: default_headers_def)
  from set_defaults_other [OF h this] hset_then_comment [OF h0]
  have "hget ''EXTNAME'' h = Inr (HStr ''CCF'')"
    by (simp add: hget_Inr_iff)
  with hdu show ?thesis by blast
qed

lemma hget_add_checksum:
  "k \<noteq> ''DATASUM'' \<Longrightarrow> k \<noteq> ''CHECKSUM'' \<Longrightarrow>
     hget k (ohdr (add_checksum env hdu)) = hget k (ohdr hdu)"
  by (simp add: hget_def map_of_add_checksum)

lemma assemble_InrD:
  assumes "assemble env dummy_hdus hdu_flux hdu_sigma = Inr p"
  shows "if dummy_hdus
         then \<exists>n1 n2 n3.
                p = [add_checksum env hdu_flux, add_checksum env hdu_sigma,
                     add_checksum env \<lparr>ohdr = n1, odata = None\<rparr>,
                     add_checksum env \<lparr>ohdr = n2, odata = None\<rparr>,
                     add_checksum env \<lparr>ohdr = n3, odata = None\<rparr>] \<and>
                hget ''EXTNAME'' n1 = Inr (HStr ''normalised_spectrum'') \<and>
                hget ''EXTNAME'' n2 = Inr (HStr ''normalised_sigma'') \<and>
                hget ''EXTNAME'' n3 = Inr (HStr ''CCF'')
         else p = [add_checksum env hdu_flux, add_checksum env hdu_sigma]"
proof (cases dummy_hdus)
  case False
  with assms show ?thesis by (simp add: assemble_def)
next
  case True
  with assms obtain a b ccf where
    a: "dummy_normalised env (Some [add_checksum env hdu_flux, add_checksum env hdu_sigma])
          ''normalised_spectrum'' ''Normalised spectrum flux'' = Inr a" and
    b: "dummy_normalised env (Some [add_checksum env hdu_flux, add_checksum env hdu_sigma])
          ''normalised_sigma'' ''Normalised flux sigma'' = Inr b" and
    c: "dummy_ccf_hdu env
          (Some ([add_checksum env hdu_flux, add_checksum env hdu_sigma] @ [a, b])) = Inr ccf" and
    p: "p = [add_checksum env hdu_flux, add_checksum env hdu_sigma, a, b, ccf]"
    by (auto simp add: assemble_def Let_def dummy_normalisation_hdus_def bindE_Inr_iff)
  from dummy_normalised_InrD [OF a] dummy_normalised_InrD [OF b] dummy_ccf_hdu_InrD [OF c] p True
  show ?thesis by auto
qed

lemmas ex_defs = ex_image_def ex_image_with_def ex_primary_header_def ex_fibres_def ex_env_def
  nth_hdu_def hget_def hcomment_def hset_def hset_comment_def hset_card_def hdel_def
  hadd_history_def himul_def table_column_def table_field_def image_row_def WG6_VER_def
  program_indices_def keyword_list_def keyword_comments_def ra_dec_in_def
  radians_to_degrees_def wave_keys_def default_headers_def zero_checksum_def add_checksum_def
  strip_def is_space_def first_token_def index_of_def extname_or_empty_def ccd_table_def

lemma hdel_all_InrD:
  "hdel_all ks h = Inr h' \<Longrightarrow> k \<notin> set ks \<Longrightarrow> map_of h' k = map_of h k"
proof (induction ks arbitrary: h)
  case Nil
  then show ?case by simp
next
  case (Cons k0 ks)
  from Cons.prems obtain h1 where
    h1: "hdel k0 h = Inr h1" and rest: "hdel_all ks h1 = Inr h'"
    by (auto simp add: bindE_Inr_iff)
  from Cons.prems(2) have "k \<noteq> k0" "k \<notin> set ks" by auto
  with Cons.IH [OF rest] hdel_InrD [OF h1] show ?case by simp
qed

lemma header_template_parts:
  assumes "header_template env img ext = Inr tmpl"
  shows "\<exists>p n name. nth_hdu img (ext_data ext) = Inr p \<and> get_ccd_number img = Inr (n, name)"
  using assms by (auto simp add: header_template_def bindE_Inr_iff split: prod.splits)

lemma header_template_map:
  assumes "header_template env img ext = Inr tmpl"
    and "nth_hdu img (ext_data ext) = Inr p"
    and "get_ccd_number img = Inr (n, name)"
    and "k \<notin> set [''CDELT2'', ''CRPIX2'', ''CRVAL2'', ''CTYPE2'', ''CUNIT2'']"
  shows "map_of tmpl k =
          ((map_of (ihdr p))
            (''CCD'' \<mapsto> (HInt n, name @ '' camera''),
             ''WG6_VER'' \<mapsto> (HNum WG6_VER, ''WG6 standardisation code version''),
             ''WG6_HASH'' \<mapsto> (HStr (WG6_GIT_HASH env), ''WG6 standardisation commit hash''))) k"
proof -
  from assms(1-3) obtain h0 h1 h2 where
    h0: "hdel_all [''CDELT2'', ''CRPIX2'', ''CRVAL2'', ''CTYPE2'', ''CUNIT2''] (ihdr p) = Inr h0" and
    h1: "hset_comment ''CCD'' (name @ '' camera'') (hset ''CCD'' (HInt n) h0) = Inr h1" and
    h2: "hset_comment ''WG6_VER'' ''WG6 standardisation code version''
              (hset ''WG6_HASH'' (HStr (WG6_GIT_HASH env))
                 (hset ''WG6_VER'' (HNum WG6_VER) h1)) = Inr h2" and
    t: "hset_comment ''WG6_HASH'' ''WG6 standardisation commit hash'' h2 = Inr tmpl"
    by (auto simp add: header_template_def bindE_Inr_iff split: prod.splits)
  have m1: "map_of h1 = (map_of h0)(''CCD'' \<mapsto> (HInt n, name @ '' camera''))"
    by (rule hset_then_comment [OF h1])
  from hset_comment_InrD [OF h2] obtain v c where
    a: "map_of (hset ''WG6_HASH'' (HStr (WG6_GIT_HASH env))
                 (hset ''WG6_VER'' (HNum WG6_VER) h1)) ''WG6_VER'' = Some (v, c)" and
    m2: "map_of h2 = (map_of (hset ''WG6_HASH'' (HStr (WG6_GIT_HASH env))
                 (hset ''WG6_VER'' (HNum WG6_VER) h1)))(''WG6_VER'' \<mapsto> (v, ''WG6 standardisation code version''))"
    by blast
  from a have v: "v = HNum WG6_VER" by (simp add: map_of_hset)
  from hset_comment_InrD [OF t] obtain w d where
    b: "map_of h2 ''WG6_HASH'' = Some (w, d)" and
    m3: "map_of tmpl = (map_of h2)(''WG6_HASH'' \<mapsto> (w, ''WG6 standardisation commit hash''))"
    by blast
  from b m2 have w: "w = HStr (WG6_GIT_HASH env)" by (simp add: map_of_hset)
  from hdel_all_InrD [OF h0 assms(4)] have "map_of h0 k = map_of (ihdr p) k" .
  then show ?thesis
    unfolding m3 m2 v w by (simp add: map_of_hset m1)
qed

lemma header_template_ccd:
  assumes "header_template env img ext = Inr tmpl" and "get_ccd_number img = Inr (n, name)"
  shows "hget ''CCD'' tmpl = Inr (HInt n)"
proof -
  from header_template_parts [OF assms(1)] obtain p where
    p: "nth_hdu img (ext_data ext) = Inr p"
    by blast
  have "''CCD'' \<notin> set [''CDELT2'', ''CRPIX2'', ''CRVAL2'', ''CTYPE2'', ''CUNIT2'']"
    by simp
  from header_template_map [OF assms(1) p assms(2) this]
  have "map_of tmpl ''CCD'' = Some (HInt n, name @ '' camera'')" by simp
  then show ?thesis by (simp add: hget_Inr_iff)
qed

lemma get_ccd_number_token:
  assumes "nth_hdu img 0 = Inr p" and "hcomment ''SPLYTEMP'' (ihdr p) = Inr c"
  shows "get_ccd_number img =
           bindE (ccd_table (first_token c)) (\<lambda>n. Inr (n, first_token c))"
  using assms by (simp only: get_ccd_number_def bindE_Inr)

lemma ccd_table_mapping:
  "bindE (ccd_table t) (\<lambda>n. Inr (n, t)) =
           (if t = ''BLUE'' then Inr (1, ''BLUE'')
            else if t = ''GREEN'' then Inr (2, ''GREEN'')
            else if t = ''RED'' then Inr (3, ''RED'')
            else if t = ''IR'' then Inr (4, ''IR'')
            else Inl (KeyError t))"
proof -
  consider "t = ''BLUE''" | "t = ''GREEN''" | "t = ''RED''" | "t = ''IR''"
    | "t \<noteq> ''BLUE''" "t \<noteq> ''GREEN''" "t \<noteq> ''RED''" "t \<noteq> ''IR''"
    by blast
  then show ?thesis
  proof cases
    case 1 then show ?thesis by (simp add: ccd_table_def)
  next
    case 2 then show ?thesis by (simp add: ccd_table_def)
  next
    case 3 then show ?thesis by (simp add: ccd_table_def)
  next
    case 4 then show ?thesis by (simp add: ccd_table_def)
  next
    case 5 then show ?thesis by (simp add: ccd_table_def)
  qed
qed

lemma ccd_table_unknown:
  "t \<notin> set [''BLUE'', ''GREEN'', ''RED'', ''IR''] \<Longrightarrow> ccd_table t = Inl (KeyError t)"
  by (simp add: ccd_table_def)

lemma ex_nth0: "nth_hdu ex_image 0 = Inr (ex_image ! 0)"
  by (simp add: nth_hdu_def ex_image_def ex_image_with_def)

lemma ex_splytemp: "hcomment ''SPLYTEMP'' (ihdr (ex_image ! 0)) = Inr ''GREEN spectrograph''"
  by (simp add: ex_image_def ex_image_with_def ex_primary_header_def hcomment_def)

lemma ex_template: "header_template ex_env ex_image ex_ext = Inr ex_template"
  by (simp add: header_template_def get_ccd_number_def ex_ext_def ex_template_def ex_defs)

lemma ex_bad_nth0: "nth_hdu ex_bad_channel 0 = Inr (ex_bad_channel ! 0)"
  by (simp add: nth_hdu_def ex_bad_channel_def ex_image_with_def)

lemma ex_bad_splytemp:
  "hcomment ''SPLYTEMP'' (ihdr (ex_bad_channel ! 0)) = Inr ''PURPLE spectrograph''"
  by (simp add: ex_bad_channel_def ex_image_with_def ex_primary_header_def hcomment_def
      hset_card_def)

text \<open>
  C8. The first word of the SPLYTEMP comment is looked up in the table BLUE 1, GREEN 2,
  RED 3, IR 4; the number found is the CCD field of the template, and a word outside
  the table makes the lookup, and with it the building of the template, fail with the
  key error of the dictionary (the UnknownChannelError of the specification).
\<close>

theorem ccd_number_mapping:
  assumes "nth_hdu img 0 = Inr p" and "hcomment ''SPLYTEMP'' (ihdr p) = Inr c"
  shows "get_ccd_number img =
           (if first_token c = ''BLUE'' then Inr (1, ''BLUE'')
            else if first_token c = ''GREEN'' then Inr (2, ''GREEN'')
            else if first_token c = ''RED'' then Inr (3, ''RED'')
            else if first_token c = ''IR'' then Inr (4, ''IR'')
            else Inl (KeyError (first_token c))) \<and>
         (\<forall>tmpl. header_template env img ext = Inr tmpl \<longrightarrow>
            (\<exists>n. get_ccd_number img = Inr (n, first_token c) \<and>
                 hget ''CCD'' tmpl = Inr (HInt n))) \<and>
         (first_token c \<notin> set [''BLUE'', ''GREEN'', ''RED'', ''IR''] \<longrightarrow>
            (\<exists>e. header_template env img ext = Inl e) \<and>
            (\<forall>p' h0. nth_hdu img (ext_data ext) = Inr p' \<longrightarrow>
               hdel_all [''CDELT2'', ''CRPIX2'', ''CRVAL2'', ''CTYPE2'', ''CUNIT2''] (ihdr p')
                 = Inr h0 \<longrightarrow>
               header_template env img ext = Inl (KeyError (first_token c))))"
proof (intro conjI allI impI)
  show "get_ccd_number img =
           (if first_token c = ''BLUE'' then Inr (1, ''BLUE'')
            else if first_token c = ''GREEN'' then Inr (2, ''GREEN'')
            else if first_token c = ''RED'' then Inr (3, ''RED'')
            else if first_token c = ''IR'' then Inr (4, ''IR'')
            else Inl (KeyError (first_token c)))"
    unfolding get_ccd_number_token [OF assms] by (rule ccd_table_mapping)
next
  fix tmpl
  assume t: "header_template env img ext = Inr tmpl"
  from header_template_parts [OF t] obtain n name where
    a: "get_ccd_number img = Inr (n, name)"
    by blast
  from a have "name = first_token c"
    unfolding get_ccd_number_token [OF assms] by (auto simp add: bindE_Inr_iff)
  with a header_template_ccd [OF t a]
  show "\<exists>n. get_ccd_number img = Inr (n, first_token c) \<and> hget ''CCD'' tmpl = Inr (HInt n)"
    by blast
next
  assume bad: "first_token c \<notin> set [''BLUE'', ''GREEN'', ''RED'', ''IR'']"
  have g: "get_ccd_number img = Inl (KeyError (first_token c))"
    unfolding get_ccd_number_token [OF assms] ccd_table_unknown [OF bad] by simp
  show "\<exists>e. header_template env img ext = Inl e"
  proof (cases "header_template env img ext")
    case (Inl e)
    then show ?thesis by blast
  next
    case (Inr tmpl)
    from header_template_parts [OF Inr] g show ?thesis by simp
  qed
next
  fix p' h0
  assume bad: "first_token c \<notin> set [''BLUE'', ''GREEN'', ''RED'', ''IR'']"
    and p': "nth_hdu img (ext_data ext) = Inr p'"
    and h0: "hdel_all [''CDELT2'', ''CRPIX2'', ''CRVAL2'', ''CTYPE2'', ''CUNIT2''] (ihdr p') = Inr h0"
  have g: "get_ccd_number img = Inl (KeyError (first_token c))"
    unfolding get_ccd_number_token [OF assms] ccd_table_unknown [OF bad] by simp
  show "header_template env img ext = Inl (KeyError (first_token c))"
    unfolding header_template_def p' bindE_Inr h0 g bindE_Inl ..
qed

theorem ccd_number_mapping_witness:
  "nth_hdu ex_image 0 = Inr (ex_image ! 0) \<and>
   hcomment ''SPLYTEMP'' (ihdr (ex_image ! 0)) = Inr ''GREEN spectrograph'' \<and>
   get_ccd_number ex_image = Inr (2, ''GREEN'') \<and>
   header_template ex_env ex_image ex_ext = Inr ex_template \<and>
   hget ''CCD'' ex_template = Inr (HInt 2) \<and>
   nth_hdu ex_bad_channel 0 = Inr (ex_bad_channel ! 0) \<and>
   hcomment ''SPLYTEMP'' (ihdr (ex_bad_channel ! 0)) = Inr ''PURPLE spectrograph'' \<and>
   get_ccd_number ex_bad_channel = Inl (KeyError ''PURPLE'') \<and>
   header_template ex_env ex_bad_channel ex_ext = Inl (KeyError ''PURPLE'')"
proof -
  have tok: "first_token ''GREEN spectrograph'' = ''GREEN''"
    "first_token ''PURPLE spectrograph'' = ''PURPLE''"
    by (simp_all add: first_token_def)
  note good = ccd_number_mapping [OF ex_nth0 ex_splytemp, of ex_env ex_ext, unfolded tok]
  note bad = ccd_number_mapping [OF ex_bad_nth0 ex_bad_splytemp, of ex_env ex_ext, unfolded tok]
  from good have g1: "get_ccd_number ex_image = Inr (2, ''GREEN'')" by simp
  from good ex_template have g2: "hget ''CCD'' ex_template = Inr (HInt 2)"
    using g1 by auto
  from bad have b1: "get_ccd_number ex_bad_channel = Inl (KeyError ''PURPLE'')" by simp
  have b0: "nth_hdu ex_bad_channel (ext_data ex_ext) = Inr (ex_bad_channel ! 0)"
    by (simp add: ex_ext_def ex_bad_nth0)
  have b2: "\<exists>h0. hdel_all [''CDELT2'', ''CRPIX2'', ''CRVAL2'', ''CTYPE2'', ''CUNIT2'']
              (ihdr (ex_bad_channel ! 0)) = Inr h0"
    by (simp add: ex_bad_channel_def ex_image_with_def ex_primary_header_def hset_card_def
        hdel_def)
  from bad b0 b2 have b3: "header_template ex_env ex_bad_channel ex_ext = Inl (KeyError ''PURPLE'')"
    by auto
  from ex_nth0 ex_splytemp g1 ex_template g2 ex_bad_nth0 ex_bad_splytemp b1 b3
  show ?thesis by simp
qed

lemma extract_all_InrD:
  "extract_all env img ext tmpl d js = Inr ps \<Longrightarrow>
     list_all2 (\<lambda>i p. extract_source env img ext tmpl d i = Inr p) js ps"
proof (induction js arbitrary: ps)
  case Nil
  then show ?case by simp
next
  case (Cons i js)
  from Cons.prems obtain p rest where
    p: "extract_source env img ext tmpl d i = Inr p" and
    rest: "extract_all env img ext tmpl d js = Inr rest" and
    ps: "ps = p # rest"
    by (auto simp add: bindE_Inr_iff)
  from Cons.IH [OF rest] p ps show ?case by simp
qed

lemma convert_image_InrD:
  assumes "convert_image env img d = Inr srcs"
  shows "\<exists>ext tmpl fb types.
     read_2dfdr_extensions img = Inr ext \<and> verify_hermes_origin img = Inr () \<and>
     header_template env img ext = Inr tmpl \<and>
     nth_hdu img (ext_fibres ext) = Inr fb \<and>
     table_column (idata fb) ''TYPE'' = Inr types \<and>
     extract_all env img ext tmpl d (program_indices types) = Inr srcs"
  using assms by (auto simp add: convert_image_def bindE_Inr_iff)

lemma from_2dfdr_Inr_iff:
  "from_2dfdr env f d = (Inr srcs, st) \<longleftrightarrow>
     (\<exists>img. fits_open env f = Inr img \<and> convert_image env img d = Inr srcs \<and> st = Closed)"
  by (auto simp add: from_2dfdr_def split: sum.splits)

lemma extract_source_InrD:
  assumes "extract_source env img ext tmpl d i = Inr p"
  shows "\<exists>dt flux vr variance fb hdr fh sh vb vh fh1 fh2 sh2.
     nth_hdu img (ext_data ext) = Inr dt \<and> image_row (idata dt) i = Inr flux \<and>
     nth_hdu img (ext_variance ext) = Inr vr \<and> image_row (idata vr) i = Inr variance \<and>
     nth_hdu img (ext_fibres ext) = Inr fb \<and>
     object_header tmpl (idata fb) i = Inr hdr \<and>
     flux_sigma_headers hdr = Inr (fh, sh) \<and>
     motions_from_header env hdr = Inr (vb, vh) \<and>
     velocity_fields env vb vh fh = Inr fh1 \<and>
     doppler (over_c env vb) fh1 = Inr fh2 \<and>
     doppler (over_c env vb) sh = Inr sh2 \<and>
     assemble env d \<lparr>ohdr = fh2, odata = Some flux\<rparr>
       \<lparr>ohdr = sh2, odata = Some (map sqrt variance)\<rparr> = Inr p"
  using assms
  by (simp add: extract_source_def bindE_Inr_iff split: prod.splits)

lemma extract_source_context:
  assumes "extract_source env img ext tmpl d i = Inr p"
  shows "\<exists>fb hdr vb vh.
     nth_hdu img (ext_fibres ext) = Inr fb \<and>
     object_header tmpl (idata fb) i = Inr hdr \<and>
     motions_from_header env hdr = Inr (vb, vh)"
proof -
  from extract_source_InrD [OF assms] obtain fb hdr vb vh where
    "nth_hdu img (ext_fibres ext) = Inr fb"
    "object_header tmpl (idata fb) i = Inr hdr"
    "motions_from_header env hdr = Inr (vb, vh)"
    by blast
  then show ?thesis by blast
qed

text \<open>The two extensions that carry data, and all cards of their headers.\<close>

lemma extract_source_headers:
  assumes p: "extract_source env img ext tmpl d i = Inr p"
    and fb: "nth_hdu img (ext_fibres ext) = Inr fb"
    and hdr: "object_header tmpl (idata fb) i = Inr hdr"
    and mo: "motions_from_header env hdr = Inr (vb, vh)"
  shows "\<exists>v c v' w cw w' fx sx.
     map_of hdr ''CRVAL1'' = Some (v, c) \<and> hmul v (1 + over_c env vb) = Inr v' \<and>
     map_of hdr ''CDELT1'' = Some (w, cw) \<and> hmul w (1 + over_c env vb) = Inr w' \<and>
     assemble env d fx sx = Inr p \<and>
     map_of (ohdr fx) =
       (\<lambda>k. if k = ''HISTORY'' then
               (case map_of hdr ''HISTORY'' of
                  None \<Rightarrow> Some (HStr ''Corrected for barycentric motion (V_BARY)'', [])
                | Some x \<Rightarrow> Some x)
            else ((map_of hdr)
              (''EXTNAME'' \<mapsto> (HStr ''input_spectrum'', ''Spectrum flux''),
               ''V_BARY'' \<mapsto> (HNum (to_kms env vb), ''Barycentric motion (km/s)''),
               ''V_HELIO'' \<mapsto> (HNum (to_kms env vh), ''Heliocentric motion (km/s)''),
               ''CRVAL1'' \<mapsto> (v', c), ''CDELT1'' \<mapsto> (w', cw))) k) \<and>
     map_of (ohdr sx) =
       (\<lambda>k. if k = ''EXTNAME'' then Some (HStr ''input_sigma'', ''Flux sigma'')
            else if k = ''CRVAL1'' then Some (v', c)
            else if k = ''CDELT1'' then Some (w', cw)
            else if k \<in> set wave_keys then map_of hdr k else None)"
proof -
  from extract_source_InrD [OF p] fb hdr mo obtain flux variance fh sh fh1 fh2 sh2 where
    fs: "flux_sigma_headers hdr = Inr (fh, sh)" and
    vf: "velocity_fields env vb vh fh = Inr fh1" and
    d1: "doppler (over_c env vb) fh1 = Inr fh2" and
    d2: "doppler (over_c env vb) sh = Inr sh2" and
    asm: "assemble env d \<lparr>ohdr = fh2, odata = Some flux\<rparr>
       \<lparr>ohdr = sh2, odata = Some (map sqrt variance)\<rparr> = Inr p"
    by auto
  note mfh = flux_sigma_headers_InrD(1) [OF fs]
  note msh = flux_sigma_headers_InrD(3) [OF fs]
  note mfh1 = velocity_fields_InrD [OF vf]
  from doppler_InrD [OF d1] obtain v c v' w cw w' where
    a: "map_of fh1 ''CRVAL1'' = Some (v, c)" "hmul v (1 + over_c env vb) = Inr v'"
       "map_of fh1 ''CDELT1'' = Some (w, cw)" "hmul w (1 + over_c env vb) = Inr w'" and
    mfh2: "map_of fh2 = (map_of fh1)(''CRVAL1'' \<mapsto> (v', c), ''CDELT1'' \<mapsto> (w', cw))"
    by blast
  from a(1) have hv: "map_of hdr ''CRVAL1'' = Some (v, c)"
    by (simp add: mfh1 mfh)
  from a(3) have hw: "map_of hdr ''CDELT1'' = Some (w, cw)"
    by (simp add: mfh1 mfh)
  from doppler_InrD [OF d2] obtain v2 c2 v2' w2 cw2 w2' where
    b: "map_of sh ''CRVAL1'' = Some (v2, c2)" "hmul v2 (1 + over_c env vb) = Inr v2'"
       "map_of sh ''CDELT1'' = Some (w2, cw2)" "hmul w2 (1 + over_c env vb) = Inr w2'" and
    msh2: "map_of sh2 = (map_of sh)(''CRVAL1'' \<mapsto> (v2', c2), ''CDELT1'' \<mapsto> (w2', cw2))"
    by blast
  from b(1) hv have "v2 = v" "c2 = c" by (simp_all add: msh wave_keys_def)
  moreover from b(3) hw have "w2 = w" "cw2 = cw" by (simp_all add: msh wave_keys_def)
  ultimately have same: "v2' = v'" "c2 = c" "w2' = w'" "cw2 = cw"
    using a(2,4) b(2,4) by simp_all
  have F: "map_of fh2 =
       (\<lambda>k. if k = ''HISTORY'' then
               (case map_of hdr ''HISTORY'' of
                  None \<Rightarrow> Some (HStr ''Corrected for barycentric motion (V_BARY)'', [])
                | Some x \<Rightarrow> Some x)
            else ((map_of hdr)
              (''EXTNAME'' \<mapsto> (HStr ''input_spectrum'', ''Spectrum flux''),
               ''V_BARY'' \<mapsto> (HNum (to_kms env vb), ''Barycentric motion (km/s)''),
               ''V_HELIO'' \<mapsto> (HNum (to_kms env vh), ''Heliocentric motion (km/s)''),
               ''CRVAL1'' \<mapsto> (v', c), ''CDELT1'' \<mapsto> (w', cw))) k)"
    by (rule ext) (simp add: mfh2 mfh1 mfh)
  have S: "map_of sh2 =
       (\<lambda>k. if k = ''EXTNAME'' then Some (HStr ''input_sigma'', ''Flux sigma'')
            else if k = ''CRVAL1'' then Some (v', c)
            else if k = ''CDELT1'' then Some (w', cw)
            else if k \<in> set wave_keys then map_of hdr k else None)"
    by (rule ext) (simp add: msh2 msh same)
  from hv a(2) hw a(4) asm F S show ?thesis
    by (intro exI [of _ v] exI [of _ c] exI [of _ v'] exI [of _ w] exI [of _ cw] exI [of _ w']
        exI [of _ "\<lparr>ohdr = fh2, odata = Some flux\<rparr>"]
        exI [of _ "\<lparr>ohdr = sh2, odata = Some (map sqrt variance)\<rparr>"]) simp
qed

lemmas ex_out_defs = ex_header_def ex_template_def ex_wave_cards_def ex_sums_def
  ex_flux_hdu_def ex_sigma_hdu_def ex_normed_flux_def ex_normed_sigma_def ex_ccf_def ex_ext_def

lemma ex_object_header: "object_header ex_template ex_fibres 1 = Inr ex_header"
  by (simp add: object_header_def ex_header_def ex_template_def ex_defs)

lemma ex_read: "read_2dfdr_extensions ex_image = Inr ex_ext"
  by (simp add: read_2dfdr_extensions_def ex_ext_def ex_defs)

lemma ex_verify: "verify_hermes_origin ex_image = Inr ()"
  by (simp add: verify_hermes_origin_def ex_defs)

lemma ex_assemble_plain:
  "assemble ex_env False
     \<lparr>ohdr = butlast (butlast (ohdr ex_flux_hdu)), odata = Some [3, 5]\<rparr>
     \<lparr>ohdr = butlast (butlast (ohdr ex_sigma_hdu)), odata = Some [2, 1]\<rparr>
   = Inr [ex_flux_hdu, ex_sigma_hdu]"
  by (simp add: assemble_def ex_out_defs ex_defs)

lemma ex_assemble:
  "assemble ex_env True
     \<lparr>ohdr = butlast (butlast (ohdr ex_flux_hdu)), odata = Some [3, 5]\<rparr>
     \<lparr>ohdr = butlast (butlast (ohdr ex_sigma_hdu)), odata = Some [2, 1]\<rparr>
   = Inr [ex_flux_hdu, ex_sigma_hdu, ex_normed_flux, ex_normed_sigma, ex_ccf]"
  by (simp add: assemble_def dummy_normalisation_hdus_def dummy_normalised_def
      dummy_ccf_hdu_def ex_out_defs ex_defs)

lemma ex_source:
  "extract_source ex_env ex_image ex_ext ex_template dummy (Suc 0) =
     assemble ex_env dummy
       \<lparr>ohdr = butlast (butlast (ohdr ex_flux_hdu)), odata = Some [3, 5]\<rparr>
       \<lparr>ohdr = butlast (butlast (ohdr ex_sigma_hdu)), odata = Some [2, 1]\<rparr>"
  by (simp add: extract_source_def object_header_def flux_sigma_headers_def
      velocity_fields_def doppler_def ex_out_defs ex_defs)

lemma ex_types: "fibre_types ex_image = Inr [HStr ''S'', HStr ''P'']"
  by (simp add: fibre_types_def fibre_table_def ex_read)
     (simp add: ex_ext_def ex_defs)

lemma ex_indices: "program_indices [HStr ''S'', HStr ''P''] = [1]"
  by (simp add: program_indices_def upt_rec)

lemma ex_convert:
  "convert_image ex_env ex_image dummy =
     bindE (extract_source ex_env ex_image ex_ext ex_template dummy 1) (\<lambda>p. Inr [p])"
proof -
  have "nth_hdu ex_image (ext_fibres ex_ext) = Inr (ex_image ! 2)"
    by (simp add: nth_hdu_def ex_ext_def ex_image_def ex_image_with_def)
  moreover have "table_column (idata (ex_image ! 2)) ''TYPE'' = Inr [HStr ''S'', HStr ''P'']"
    by (simp add: ex_defs)
  ultimately show ?thesis
    by (simp add: convert_image_def ex_read ex_verify ex_template ex_indices)
qed

lemma ex_open: "fits_open ex_env ''combined.fits'' = Inr ex_image"
  by (simp add: ex_env_def)

lemma ex_run:
  "from_2dfdr ex_env ''combined.fits'' True =
     (Inr [[ex_flux_hdu, ex_sigma_hdu, ex_normed_flux, ex_normed_sigma, ex_ccf]], Closed)"
  by (simp add: from_2dfdr_def ex_open ex_convert ex_source ex_assemble)

lemma ex_run_plain:
  "from_2dfdr ex_env ''combined.fits'' False = (Inr [[ex_flux_hdu, ex_sigma_hdu]], Closed)"
  by (simp add: from_2dfdr_def ex_open ex_convert ex_source ex_assemble_plain)

lemma read_2dfdr_extensions_nonempty:
  assumes "read_2dfdr_extensions img = Inr ext"
  shows "nth_hdu img 0 = Inr (img ! 0)"
proof (cases img)
  case Nil
  with assms show ?thesis
    by (simp add: read_2dfdr_extensions_def index_of_def)
next
  case (Cons a list)
  then show ?thesis by (simp add: nth_hdu_def)
qed

text \<open>
  C3, as the code has it. The list holds the bare strings RA and DEC (only the entries
  for MAGNITUDE and COMMENT are pairs), so the guard holds and the conversion from
  radians to degrees runs for every object.
\<close>

theorem radians_to_degrees_always:
  "ra_dec_in keyword_list \<and>
   radians_to_degrees keyword_list h =
     bindE (himul ''RA'' (180 / pi) h) (himul ''DEC'' (180 / pi))"
  by (simp add: radians_to_degrees_def ra_dec_in_def keyword_list_def)

theorem ra_dec_guard_counterexample:
  "ra_dec_in keyword_list \<and>
   table_field ex_fibres 1 ''RA'' = Inr (HNum pi) \<and>
   bindE (object_header ex_template ex_fibres 1) (hget ''RA'') = Inr (HNum 180)"
proof -
  have a: "ra_dec_in keyword_list"
    by (simp add: ra_dec_in_def keyword_list_def)
  have b: "table_field ex_fibres 1 ''RA'' = Inr (HNum pi)"
    by (simp add: ex_fibres_def table_field_def table_column_def)
  have c: "bindE (object_header ex_template ex_fibres 1) (hget ''RA'') = Inr (HNum 180)"
    unfolding ex_object_header by (simp add: hget_def ex_header_def ex_template_def)
  from a b c show ?thesis by (intro conjI)
qed

text \<open>
  C7, as the code has it. No statement of \<^verbatim>\<open>from_2dfdr\<close> catches an exception: the file
  is closed when the function returns its list, and it is still open when an exception
  leaves the function.
\<close>

theorem closed_only_on_return:
  assumes "fits_open env f = Inr img"
  shows "(\<forall>srcs. fst (from_2dfdr env f d) = Inr srcs \<longrightarrow> snd (from_2dfdr env f d) = Closed) \<and>
         (\<forall>e. fst (from_2dfdr env f d) = Inl e \<longrightarrow> snd (from_2dfdr env f d) = Opened)"
  using assms by (simp add: from_2dfdr_def split: sum.splits)

lemma ex_motion_fails_open: "fits_open ex_env_motion_fails ''combined.fits'' = Inr ex_image"
  by (simp add: ex_env_motion_fails_def ex_env_def)

lemma ex_motion_fails_run:
  "from_2dfdr ex_env_motion_fails ''combined.fits'' True =
     (Inl (MotionError ''no ephemeris''), Opened)"
proof -
  have t: "header_template ex_env_motion_fails ex_image ex_ext = Inr ex_template"
    using ex_template by (simp add: header_template_def ex_env_motion_fails_def ex_env_def)
  have "nth_hdu ex_image (ext_fibres ex_ext) = Inr (ex_image ! 2)"
    by (simp add: nth_hdu_def ex_ext_def ex_image_def ex_image_with_def)
  moreover have "table_column (idata (ex_image ! 2)) ''TYPE'' = Inr [HStr ''S'', HStr ''P'']"
    by (simp add: ex_defs)
  moreover have "extract_source ex_env_motion_fails ex_image ex_ext ex_template True (Suc 0) =
      Inl (MotionError ''no ephemeris'')"
    by (simp add: extract_source_def object_header_def flux_sigma_headers_def
      ex_env_motion_fails_def ex_out_defs ex_defs)
  ultimately show ?thesis
    by (simp add: from_2dfdr_def ex_motion_fails_open convert_image_def ex_read ex_verify t
        ex_indices)
qed

theorem closed_only_on_return_witness:
  "fits_open ex_env ''combined.fits'' = Inr ex_image \<and>
   fst (from_2dfdr ex_env ''combined.fits'' True) =
     Inr [[ex_flux_hdu, ex_sigma_hdu, ex_normed_flux, ex_normed_sigma, ex_ccf]] \<and>
   snd (from_2dfdr ex_env ''combined.fits'' True) = Closed \<and>
   fits_open ex_env_motion_fails ''combined.fits'' = Inr ex_image \<and>
   fst (from_2dfdr ex_env_motion_fails ''combined.fits'' True) =
     Inl (MotionError ''no ephemeris'') \<and>
   snd (from_2dfdr ex_env_motion_fails ''combined.fits'' True) = Opened"
  using closed_only_on_return [OF ex_open, of True]
    closed_only_on_return [OF ex_motion_fails_open, of True]
  by (simp add: ex_open ex_motion_fails_open ex_run ex_motion_fails_run)

theorem close_on_error_counterexample:
  "fits_open ex_env_motion_fails ''combined.fits'' = Inr ex_image \<and>
   from_2dfdr ex_env_motion_fails ''combined.fits'' True =
     (Inl (MotionError ''no ephemeris''), Opened)"
  by (simp add: ex_motion_fails_open ex_motion_fails_run)

text \<open>
  C6, as the code has it. The extensions are looked up before the origin is verified.
  When both named extensions are found and the stripped ORIGIN is not AAO, or it is AAO
  and the stripped INSTRUME is not HERMES-2dF, the assertion of
  \<^verbatim>\<open>verify_hermes_origin\<close> fails (the OriginMismatchError of the specification): the
  function raises before the template is built or any object is processed, and returns
  no product.
\<close>

theorem origin_mismatch_raises:
  assumes "fits_open env f = Inr img"
    and "read_2dfdr_extensions img = Inr ext"
    and "hget ''ORIGIN'' (ihdr (img ! 0)) = Inr (HStr org)"
    and "strip org \<noteq> ''AAO'' \<or>
         (hget ''INSTRUME'' (ihdr (img ! 0)) = Inr (HStr ins) \<and> strip ins \<noteq> ''HERMES-2dF'')"
  shows "verify_hermes_origin img = Inl AssertionError \<and>
         from_2dfdr env f d = (Inl AssertionError, Opened)"
proof -
  note p = read_2dfdr_extensions_nonempty [OF assms(2)]
  have v: "verify_hermes_origin img = Inl AssertionError"
  proof (cases "strip org = ''AAO''")
    case False
    with p assms(3) show ?thesis by (simp add: verify_hermes_origin_def)
  next
    case True
    with assms(4) have "hget ''INSTRUME'' (ihdr (img ! 0)) = Inr (HStr ins)"
      and "strip ins \<noteq> ''HERMES-2dF''"
      by simp_all
    with True p assms(3) show ?thesis by (simp add: verify_hermes_origin_def)
  qed
  then have "convert_image env img d = Inl AssertionError"
    by (simp add: convert_image_def assms(2))
  with assms(1) v show ?thesis by (simp add: from_2dfdr_def)
qed

lemma ex_wrong_instrument_read: "read_2dfdr_extensions ex_wrong_instrument = Inr ex_ext"
  by (simp add: read_2dfdr_extensions_def ex_wrong_instrument_def ex_ext_def ex_defs)

lemma ex_wrong_instrument_origin:
  "hget ''ORIGIN'' (ihdr (ex_wrong_instrument ! 0)) = Inr (HStr ''AAO'')"
  by (simp add: ex_wrong_instrument_def ex_defs)

lemma ex_wrong_instrument_instrume:
  "hget ''INSTRUME'' (ihdr (ex_wrong_instrument ! 0)) = Inr (HStr ''UVES'')"
  by (simp add: ex_wrong_instrument_def ex_defs)

theorem origin_mismatch_raises_witness:
  "fits_open (ex_env_with ex_wrong_instrument) ''combined.fits'' = Inr ex_wrong_instrument \<and>
   read_2dfdr_extensions ex_wrong_instrument = Inr ex_ext \<and>
   hget ''ORIGIN'' (ihdr (ex_wrong_instrument ! 0)) = Inr (HStr ''AAO'') \<and>
   hget ''INSTRUME'' (ihdr (ex_wrong_instrument ! 0)) = Inr (HStr ''UVES'') \<and>
   strip ''UVES'' \<noteq> ''HERMES-2dF'' \<and>
   verify_hermes_origin ex_wrong_instrument = Inl AssertionError \<and>
   from_2dfdr (ex_env_with ex_wrong_instrument) ''combined.fits'' True =
     (Inl AssertionError, Opened)"
proof -
  have o: "fits_open (ex_env_with ex_wrong_instrument) ''combined.fits'' = Inr ex_wrong_instrument"
    by (simp add: ex_env_with_def)
  have s: "strip ''UVES'' \<noteq> ''HERMES-2dF''"
    by (simp add: strip_def is_space_def)
  from ex_wrong_instrument_instrume s
  have c: "strip ''AAO'' \<noteq> ''AAO'' \<or>
      (hget ''INSTRUME'' (ihdr (ex_wrong_instrument ! 0)) = Inr (HStr ''UVES'') \<and>
       strip ''UVES'' \<noteq> ''HERMES-2dF'')"
    by simp
  from origin_mismatch_raises [OF o ex_wrong_instrument_read ex_wrong_instrument_origin c, of True]
    o ex_wrong_instrument_read ex_wrong_instrument_origin ex_wrong_instrument_instrume s
  show ?thesis by simp
qed

theorem origin_mismatch_counterexample:
  "hget ''INSTRUME'' (ihdr (ex_no_variance ! 0)) = Inr (HStr ''UVES'') \<and>
   strip ''UVES'' \<noteq> ''HERMES-2dF'' \<and>
   fits_open (ex_env_with ex_no_variance) ''combined.fits'' = Inr ex_no_variance \<and>
   from_2dfdr (ex_env_with ex_no_variance) ''combined.fits'' True =
     (Inl (ValueError ''VARIANCE''), Opened)"
proof -
  have r: "read_2dfdr_extensions ex_no_variance = Inl (ValueError ''VARIANCE'')"
    by (simp add: read_2dfdr_extensions_def ex_no_variance_def ex_wrong_instrument_def ex_defs)
  have i: "hget ''INSTRUME'' (ihdr (ex_no_variance ! 0)) = Inr (HStr ''UVES'')"
    by (simp add: ex_no_variance_def ex_wrong_instrument_def ex_defs)
  have s: "strip ''UVES'' \<noteq> ''HERMES-2dF''"
    by (simp add: strip_def is_space_def)
  have o: "fits_open (ex_env_with ex_no_variance) ''combined.fits'' = Inr ex_no_variance"
    by (simp add: ex_env_with_def)
  have "from_2dfdr (ex_env_with ex_no_variance) ''combined.fits'' True =
     (Inl (ValueError ''VARIANCE''), Opened)"
    by (simp add: from_2dfdr_def o convert_image_def r)
  with i s o show ?thesis by (intro conjI)
qed

lemma extract_source_wave_keys:
  assumes p: "extract_source env img ext tmpl d i = Inr p"
    and fb: "nth_hdu img (ext_fibres ext) = Inr fb"
    and hdr: "object_header tmpl (idata fb) i = Inr hdr"
    and k: "k \<in> set wave_keys"
  shows "map_of hdr k \<noteq> None"
proof -
  from extract_source_InrD [OF p] fb hdr obtain fh sh where
    fs: "flux_sigma_headers hdr = Inr (fh, sh)"
    by auto
  from flux_sigma_headers_InrD(2) [OF fs] k show ?thesis by blast
qed

lemma read_2dfdr_extensions_data:
  "read_2dfdr_extensions img = Inr ext \<Longrightarrow> ext_data ext = 0"
  by (auto simp add: read_2dfdr_extensions_def bindE_Inr_iff)

lemma from_2dfdr_products:
  assumes "fits_open env f = Inr img" and "from_2dfdr env f d = (Inr srcs, st)"
  shows "\<exists>ext tmpl fb types.
     read_2dfdr_extensions img = Inr ext \<and>
     header_template env img ext = Inr tmpl \<and>
     nth_hdu img (ext_fibres ext) = Inr fb \<and>
     table_column (idata fb) ''TYPE'' = Inr types \<and>
     list_all2 (\<lambda>i p. extract_source env img ext tmpl d i = Inr p)
       (program_indices types) srcs"
proof -
  from assms have "convert_image env img d = Inr srcs"
    by (simp add: from_2dfdr_def split: sum.splits)
  from convert_image_InrD [OF this] obtain ext tmpl fb types where
    a: "read_2dfdr_extensions img = Inr ext"
       "header_template env img ext = Inr tmpl"
       "nth_hdu img (ext_fibres ext) = Inr fb"
       "table_column (idata fb) ''TYPE'' = Inr types" and
    b: "extract_all env img ext tmpl d (program_indices types) = Inr srcs"
    by blast
  from extract_all_InrD [OF b] a show ?thesis by blast
qed

lemma fibre_types_eq:
  assumes "read_2dfdr_extensions img = Inr ext" and "nth_hdu img (ext_fibres ext) = Inr fb"
  shows "fibre_types img = table_column (idata fb) ''TYPE''"
    and "catalog_field img i k = table_field (idata fb) i k"
    and "header_template env img ext = Inr tmpl \<Longrightarrow>
           motion_header env img i = object_header tmpl (idata fb) i"
  using assms by (simp_all add: fibre_types_def fibre_table_def catalog_field_def motion_header_def)

lemma assemble_nth:
  assumes "assemble env d fx sx = Inr p"
  shows "p ! 0 = add_checksum env fx" and "p ! 1 = add_checksum env sx"
    and "length p = (if d then 5 else 2)"
proof -
  note a = assemble_InrD [OF assms]
  show "p ! 0 = add_checksum env fx" using a by (cases d) auto
  show "p ! 1 = add_checksum env sx" using a by (cases d) auto
  show "length p = (if d then 5 else 2)" using a by (cases d) auto
qed

lemma program_indices_length:
  "length (program_indices types) = length (filter (\<lambda>t. t = HStr ''P'') types)"
proof -
  have "filter (\<lambda>t. t = HStr ''P'') (map ((!) types) [0..<length types]) =
        map ((!) types) (filter ((\<lambda>t. t = HStr ''P'') \<circ> (!) types) [0..<length types])"
    by (rule filter_map)
  then have "length (filter (\<lambda>t. t = HStr ''P'') types) =
        length (filter ((\<lambda>t. t = HStr ''P'') \<circ> (!) types) [0..<length types])"
    by (simp add: map_nth)
  then show ?thesis by (simp add: program_indices_def comp_def)
qed

lemma program_indices_sorted: "sorted_wrt (<) (program_indices types)"
  by (simp add: program_indices_def sorted_wrt_filter)

lemma program_indices_set:
  "set (program_indices types) = {i. i < length types \<and> types ! i = HStr ''P''}"
  by (auto simp add: program_indices_def)

lemma extract_source_fibre:
  assumes p: "extract_source env img ext tmpl d i = Inr p"
  shows "hget ''FIBRE'' (ohdr (p ! 0)) = Inr (HInt (int i + 1))"
proof -
  from extract_source_context [OF p] obtain fb hdr vb vh where
    fb: "nth_hdu img (ext_fibres ext) = Inr fb" and
    hdr: "object_header tmpl (idata fb) i = Inr hdr" and
    mo: "motions_from_header env hdr = Inr (vb, vh)"
    by blast
  from extract_source_headers [OF p fb hdr mo] obtain fx sx v' c w' cw where
    asm: "assemble env d fx sx = Inr p" and
    F: "map_of (ohdr fx) =
       (\<lambda>k. if k = ''HISTORY'' then
               (case map_of hdr ''HISTORY'' of
                  None \<Rightarrow> Some (HStr ''Corrected for barycentric motion (V_BARY)'', [])
                | Some x \<Rightarrow> Some x)
            else ((map_of hdr)
              (''EXTNAME'' \<mapsto> (HStr ''input_spectrum'', ''Spectrum flux''),
               ''V_BARY'' \<mapsto> (HNum (to_kms env vb), ''Barycentric motion (km/s)''),
               ''V_HELIO'' \<mapsto> (HNum (to_kms env vh), ''Heliocentric motion (km/s)''),
               ''CRVAL1'' \<mapsto> (v', c), ''CDELT1'' \<mapsto> (w', cw))) k)"
    by blast
  from object_header_map [OF hdr] have "map_of hdr ''FIBRE'' = Some (HInt (int i + 1), ''Fibre number'')"
    by auto
  with F have "map_of (ohdr fx) ''FIBRE'' = Some (HInt (int i + 1), ''Fibre number'')"
    by simp
  then show ?thesis
    unfolding assemble_nth(1) [OF asm] by (simp add: hget_def map_of_add_checksum)
qed

lemma list_all2_map_eq:
  "list_all2 Q xs ys \<Longrightarrow> (\<And>x y. Q x y \<Longrightarrow> g y = h x) \<Longrightarrow> map g ys = map h xs"
  by (induction rule: list_all2_induct) simp_all

text \<open>
  C4. A run that returns gives one product for each row of the catalogue whose type
  code is P, in ascending order of the fibre index, and the FIBRE field of the first
  extension of each product is the fibre index plus one.
\<close>

theorem one_product_per_program_fibre:
  assumes "fits_open env f = Inr img" and "from_2dfdr env f d = (Inr srcs, st)"
  shows "\<exists>types. fibre_types img = Inr types \<and>
     length srcs = length (filter (\<lambda>t. t = HStr ''P'') types) \<and>
     sorted_wrt (<) (program_indices types) \<and>
     set (program_indices types) = {i. i < length types \<and> types ! i = HStr ''P''} \<and>
     map (\<lambda>p. hget ''FIBRE'' (ohdr (p ! 0))) srcs =
       map (\<lambda>i. Inr (HInt (int i + 1))) (program_indices types)"
proof -
  from from_2dfdr_products [OF assms] obtain ext tmpl fb types where
    ext: "read_2dfdr_extensions img = Inr ext" and
    fb: "nth_hdu img (ext_fibres ext) = Inr fb" and
    types: "table_column (idata fb) ''TYPE'' = Inr types" and
    all: "list_all2 (\<lambda>i p. extract_source env img ext tmpl d i = Inr p)
       (program_indices types) srcs"
    by blast
  have 1: "fibre_types img = Inr types"
    unfolding fibre_types_eq(1) [OF ext fb] by (rule types)
  from all have "length srcs = length (program_indices types)"
    by (simp add: list_all2_lengthD)
  then have 2: "length srcs = length (filter (\<lambda>t. t = HStr ''P'') types)"
    by (simp add: program_indices_length)
  have 3: "map (\<lambda>p. hget ''FIBRE'' (ohdr (p ! 0))) srcs =
       map (\<lambda>i. Inr (HInt (int i + 1))) (program_indices types)"
    using all by (rule list_all2_map_eq) (rule extract_source_fibre)
  from 1 2 3 program_indices_sorted [of types] program_indices_set [of types]
  show ?thesis by (intro exI [of _ types] conjI)
qed

theorem one_product_per_program_fibre_witness:
  "fits_open ex_env ''combined.fits'' = Inr ex_image \<and>
   from_2dfdr ex_env ''combined.fits'' True =
     (Inr [[ex_flux_hdu, ex_sigma_hdu, ex_normed_flux, ex_normed_sigma, ex_ccf]], Closed) \<and>
   fibre_types ex_image = Inr [HStr ''S'', HStr ''P''] \<and>
   program_indices [HStr ''S'', HStr ''P''] = [1] \<and>
   length [[ex_flux_hdu, ex_sigma_hdu, ex_normed_flux, ex_normed_sigma, ex_ccf]] =
     length (filter (\<lambda>t. t = HStr ''P'') [HStr ''S'', HStr ''P'']) \<and>
   hget ''FIBRE'' (ohdr ex_flux_hdu) = Inr (HInt 2)"
proof -
  from one_product_per_program_fibre [OF ex_open ex_run] obtain types where
    t: "fibre_types ex_image = Inr types" and
    l: "length [[ex_flux_hdu, ex_sigma_hdu, ex_normed_flux, ex_normed_sigma, ex_ccf]] =
          length (filter (\<lambda>t. t = HStr ''P'') types)" and
    m: "map (\<lambda>p. hget ''FIBRE'' (ohdr (p ! 0)))
          [[ex_flux_hdu, ex_sigma_hdu, ex_normed_flux, ex_normed_sigma, ex_ccf]] =
        map (\<lambda>i. Inr (HInt (int i + 1))) (program_indices types)"
    by blast
  from t have types: "types = [HStr ''S'', HStr ''P'']" by (simp add: ex_types)
  from m have "hget ''FIBRE'' (ohdr ex_flux_hdu) = Inr (HInt 2)"
    unfolding types ex_indices by simp
  with ex_open ex_run ex_types ex_indices l types show ?thesis by simp
qed

lemma list_all2_in_set:
  "list_all2 Q xs ys \<Longrightarrow> y \<in> set ys \<Longrightarrow> \<exists>x\<in>set xs. Q x y"
  by (induction rule: list_all2_induct) auto

lemma hget_EXTNAME_add_checksum:
  "hget ''EXTNAME'' (ohdr (add_checksum env hdu)) = hget ''EXTNAME'' (ohdr hdu)"
  by (rule hget_add_checksum) simp_all

lemma extract_source_extensions:
  assumes p: "extract_source env img ext tmpl d i = Inr p"
  shows "map (\<lambda>h. hget ''EXTNAME'' (ohdr h)) p =
           (if d then [Inr (HStr ''input_spectrum''), Inr (HStr ''input_sigma''),
                       Inr (HStr ''normalised_spectrum''), Inr (HStr ''normalised_sigma''),
                       Inr (HStr ''CCF'')]
            else [Inr (HStr ''input_spectrum''), Inr (HStr ''input_sigma'')])"
    and "list_all (\<lambda>h. checksum_ok env h \<and> (\<exists>h0. h = add_checksum env h0)) p"
proof -
  from extract_source_context [OF p] obtain fb hdr vb vh where
    fb: "nth_hdu img (ext_fibres ext) = Inr fb" and
    hdr: "object_header tmpl (idata fb) i = Inr hdr" and
    mo: "motions_from_header env hdr = Inr (vb, vh)"
    by blast
  from extract_source_headers [OF p fb hdr mo] obtain fx sx v' c w' cw where
    asm: "assemble env d fx sx = Inr p" and
    F: "map_of (ohdr fx) =
       (\<lambda>k. if k = ''HISTORY'' then
               (case map_of hdr ''HISTORY'' of
                  None \<Rightarrow> Some (HStr ''Corrected for barycentric motion (V_BARY)'', [])
                | Some x \<Rightarrow> Some x)
            else ((map_of hdr)
              (''EXTNAME'' \<mapsto> (HStr ''input_spectrum'', ''Spectrum flux''),
               ''V_BARY'' \<mapsto> (HNum (to_kms env vb), ''Barycentric motion (km/s)''),
               ''V_HELIO'' \<mapsto> (HNum (to_kms env vh), ''Heliocentric motion (km/s)''),
               ''CRVAL1'' \<mapsto> (v', c), ''CDELT1'' \<mapsto> (w', cw))) k)" and
    S: "map_of (ohdr sx) =
       (\<lambda>k. if k = ''EXTNAME'' then Some (HStr ''input_sigma'', ''Flux sigma'')
            else if k = ''CRVAL1'' then Some (v', c)
            else if k = ''CDELT1'' then Some (w', cw)
            else if k \<in> set wave_keys then map_of hdr k else None)"
    by blast
  have ef: "hget ''EXTNAME'' (ohdr fx) = Inr (HStr ''input_spectrum'')"
    by (simp add: hget_def F)
  have es: "hget ''EXTNAME'' (ohdr sx) = Inr (HStr ''input_sigma'')"
    by (simp add: hget_def S)
  note a = assemble_InrD [OF asm]
  show "map (\<lambda>h. hget ''EXTNAME'' (ohdr h)) p =
           (if d then [Inr (HStr ''input_spectrum''), Inr (HStr ''input_sigma''),
                       Inr (HStr ''normalised_spectrum''), Inr (HStr ''normalised_sigma''),
                       Inr (HStr ''CCF'')]
            else [Inr (HStr ''input_spectrum''), Inr (HStr ''input_sigma'')])"
  proof (cases d)
    case True
    with a obtain n1 n2 n3 where
      "p = [add_checksum env fx, add_checksum env sx,
                     add_checksum env \<lparr>ohdr = n1, odata = None\<rparr>,
                     add_checksum env \<lparr>ohdr = n2, odata = None\<rparr>,
                     add_checksum env \<lparr>ohdr = n3, odata = None\<rparr>]"
      "hget ''EXTNAME'' n1 = Inr (HStr ''normalised_spectrum'')"
      "hget ''EXTNAME'' n2 = Inr (HStr ''normalised_sigma'')"
      "hget ''EXTNAME'' n3 = Inr (HStr ''CCF'')"
      by auto
    with True ef es show ?thesis by (simp add: hget_EXTNAME_add_checksum)
  next
    case False
    with a have "p = [add_checksum env fx, add_checksum env sx]" by simp
    with False ef es show ?thesis by (simp add: hget_EXTNAME_add_checksum)
  qed
  show "list_all (\<lambda>h. checksum_ok env h \<and> (\<exists>h0. h = add_checksum env h0)) p"
  proof (cases d)
    case True
    with a obtain n1 n2 n3 where
      "p = [add_checksum env fx, add_checksum env sx,
                     add_checksum env \<lparr>ohdr = n1, odata = None\<rparr>,
                     add_checksum env \<lparr>ohdr = n2, odata = None\<rparr>,
                     add_checksum env \<lparr>ohdr = n3, odata = None\<rparr>]"
      by auto
    then show ?thesis by (auto simp add: checksum_ok_add_checksum)
  next
    case False
    with a have "p = [add_checksum env fx, add_checksum env sx]" by simp
    then show ?thesis by (auto simp add: checksum_ok_add_checksum)
  qed
qed

text \<open>
  C9. With the switch on, every product is the five extensions input_spectrum,
  input_sigma, normalised_spectrum, normalised_sigma and CCF in this order; with the
  switch off it is the first two. Every extension is as \<^verbatim>\<open>add_checksum\<close> left it: its
  header is the result of that call, and recomputing the sums over the extension gives
  the stored ones.
\<close>

theorem product_extensions:
  assumes "fits_open env f = Inr img" and "from_2dfdr env f d = (Inr srcs, st)"
    and "p \<in> set srcs"
  shows "map (\<lambda>h. hget ''EXTNAME'' (ohdr h)) p =
           (if d then [Inr (HStr ''input_spectrum''), Inr (HStr ''input_sigma''),
                       Inr (HStr ''normalised_spectrum''), Inr (HStr ''normalised_sigma''),
                       Inr (HStr ''CCF'')]
            else [Inr (HStr ''input_spectrum''), Inr (HStr ''input_sigma'')]) \<and>
         list_all (\<lambda>h. checksum_ok env h \<and> (\<exists>h0. h = add_checksum env h0)) p"
proof -
  from from_2dfdr_products [OF assms(1,2)] obtain ext tmpl types where
    all: "list_all2 (\<lambda>i p. extract_source env img ext tmpl d i = Inr p)
       (program_indices types) srcs"
    by blast
  from list_all2_in_set [OF all assms(3)] obtain i where
    p: "extract_source env img ext tmpl d i = Inr p"
    by blast
  from extract_source_extensions [OF p] show ?thesis by (intro conjI)
qed

theorem product_extensions_witness:
  "fits_open ex_env ''combined.fits'' = Inr ex_image \<and>
   from_2dfdr ex_env ''combined.fits'' True =
     (Inr [[ex_flux_hdu, ex_sigma_hdu, ex_normed_flux, ex_normed_sigma, ex_ccf]], Closed) \<and>
   map (\<lambda>h. hget ''EXTNAME'' (ohdr h))
     [ex_flux_hdu, ex_sigma_hdu, ex_normed_flux, ex_normed_sigma, ex_ccf] =
     [Inr (HStr ''input_spectrum''), Inr (HStr ''input_sigma''),
      Inr (HStr ''normalised_spectrum''), Inr (HStr ''normalised_sigma''),
      Inr (HStr ''CCF'')] \<and>
   list_all (checksum_ok ex_env)
     [ex_flux_hdu, ex_sigma_hdu, ex_normed_flux, ex_normed_sigma, ex_ccf] \<and>
   from_2dfdr ex_env ''combined.fits'' False = (Inr [[ex_flux_hdu, ex_sigma_hdu]], Closed) \<and>
   map (\<lambda>h. hget ''EXTNAME'' (ohdr h)) [ex_flux_hdu, ex_sigma_hdu] =
     [Inr (HStr ''input_spectrum''), Inr (HStr ''input_sigma'')]"
proof -
  have in1: "[ex_flux_hdu, ex_sigma_hdu, ex_normed_flux, ex_normed_sigma, ex_ccf] \<in>
      set [[ex_flux_hdu, ex_sigma_hdu, ex_normed_flux, ex_normed_sigma, ex_ccf]]"
    by simp
  have in2: "[ex_flux_hdu, ex_sigma_hdu] \<in> set [[ex_flux_hdu, ex_sigma_hdu]]"
    by simp
  note a = product_extensions [OF ex_open ex_run in1]
  note b = product_extensions [OF ex_open ex_run_plain in2]
  from a have a1: "map (\<lambda>h. hget ''EXTNAME'' (ohdr h))
     [ex_flux_hdu, ex_sigma_hdu, ex_normed_flux, ex_normed_sigma, ex_ccf] =
     [Inr (HStr ''input_spectrum''), Inr (HStr ''input_sigma''),
      Inr (HStr ''normalised_spectrum''), Inr (HStr ''normalised_sigma''),
      Inr (HStr ''CCF'')]"
    by simp
  from a have a2: "list_all (checksum_ok ex_env)
     [ex_flux_hdu, ex_sigma_hdu, ex_normed_flux, ex_normed_sigma, ex_ccf]"
    by simp
  from b have b1: "map (\<lambda>h. hget ''EXTNAME'' (ohdr h)) [ex_flux_hdu, ex_sigma_hdu] =
     [Inr (HStr ''input_spectrum''), Inr (HStr ''input_sigma'')]"
    by simp
  from ex_open ex_run ex_run_plain a1 a2 b1 show ?thesis by (intro conjI)
qed

text \<open>The cards of the first two extensions of a product, the sums apart.\<close>

lemma extract_source_cards:
  assumes p: "extract_source env img ext tmpl d i = Inr p"
    and fb: "nth_hdu img (ext_fibres ext) = Inr fb"
    and hdr: "object_header tmpl (idata fb) i = Inr hdr"
    and mo: "motions_from_header env hdr = Inr (vb, vh)"
    and k: "k \<noteq> ''DATASUM''" "k \<noteq> ''CHECKSUM''"
  shows "\<exists>v c v' w cw w'.
     map_of hdr ''CRVAL1'' = Some (v, c) \<and> hmul v (1 + over_c env vb) = Inr v' \<and>
     map_of hdr ''CDELT1'' = Some (w, cw) \<and> hmul w (1 + over_c env vb) = Inr w' \<and>
     map_of (ohdr (p ! 0)) k =
       (if k = ''HISTORY'' then
               (case map_of hdr ''HISTORY'' of
                  None \<Rightarrow> Some (HStr ''Corrected for barycentric motion (V_BARY)'', [])
                | Some x \<Rightarrow> Some x)
        else ((map_of hdr)
              (''EXTNAME'' \<mapsto> (HStr ''input_spectrum'', ''Spectrum flux''),
               ''V_BARY'' \<mapsto> (HNum (to_kms env vb), ''Barycentric motion (km/s)''),
               ''V_HELIO'' \<mapsto> (HNum (to_kms env vh), ''Heliocentric motion (km/s)''),
               ''CRVAL1'' \<mapsto> (v', c), ''CDELT1'' \<mapsto> (w', cw))) k) \<and>
     map_of (ohdr (p ! 1)) k =
       (if k = ''EXTNAME'' then Some (HStr ''input_sigma'', ''Flux sigma'')
            else if k = ''CRVAL1'' then Some (v', c)
            else if k = ''CDELT1'' then Some (w', cw)
            else if k \<in> set wave_keys then map_of hdr k else None)"
proof -
  from extract_source_headers [OF p fb hdr mo] obtain v c v' w cw w' fx sx where
    a: "map_of hdr ''CRVAL1'' = Some (v, c)" "hmul v (1 + over_c env vb) = Inr v'"
       "map_of hdr ''CDELT1'' = Some (w, cw)" "hmul w (1 + over_c env vb) = Inr w'" and
    asm: "assemble env d fx sx = Inr p" and
    F: "map_of (ohdr fx) =
       (\<lambda>k. if k = ''HISTORY'' then
               (case map_of hdr ''HISTORY'' of
                  None \<Rightarrow> Some (HStr ''Corrected for barycentric motion (V_BARY)'', [])
                | Some x \<Rightarrow> Some x)
            else ((map_of hdr)
              (''EXTNAME'' \<mapsto> (HStr ''input_spectrum'', ''Spectrum flux''),
               ''V_BARY'' \<mapsto> (HNum (to_kms env vb), ''Barycentric motion (km/s)''),
               ''V_HELIO'' \<mapsto> (HNum (to_kms env vh), ''Heliocentric motion (km/s)''),
               ''CRVAL1'' \<mapsto> (v', c), ''CDELT1'' \<mapsto> (w', cw))) k)" and
    S: "map_of (ohdr sx) =
       (\<lambda>k. if k = ''EXTNAME'' then Some (HStr ''input_sigma'', ''Flux sigma'')
            else if k = ''CRVAL1'' then Some (v', c)
            else if k = ''CDELT1'' then Some (w', cw)
            else if k \<in> set wave_keys then map_of hdr k else None)"
    by blast
  have 0: "map_of (ohdr (p ! 0)) k = map_of (ohdr fx) k"
    unfolding assemble_nth(1) [OF asm] using k by (simp add: map_of_add_checksum)
  have 1: "map_of (ohdr (p ! 1)) k = map_of (ohdr sx) k"
    unfolding assemble_nth(2) [OF asm] using k by (simp add: map_of_add_checksum)
  from a show ?thesis
    unfolding 0 1 F S
    by (intro exI [of _ v] exI [of _ c] exI [of _ v'] exI [of _ w] exI [of _ cw] exI [of _ w'])
       simp
qed

text \<open>The keywords of the second extension.\<close>

lemma extract_source_sigma_keys:
  assumes p: "extract_source env img ext tmpl d i = Inr p"
  shows "fst ` set (ohdr (p ! 1)) = set (wave_keys @ [''EXTNAME'', ''DATASUM'', ''CHECKSUM''])"
proof -
  from extract_source_context [OF p] obtain fb hdr vb vh where
    fb: "nth_hdu img (ext_fibres ext) = Inr fb" and
    hdr: "object_header tmpl (idata fb) i = Inr hdr" and
    mo: "motions_from_header env hdr = Inr (vb, vh)"
    by blast
  from extract_source_headers [OF p fb hdr mo] obtain v' c w' cw fx sx where
    asm: "assemble env d fx sx = Inr p" and
    S: "map_of (ohdr sx) =
       (\<lambda>k. if k = ''EXTNAME'' then Some (HStr ''input_sigma'', ''Flux sigma'')
            else if k = ''CRVAL1'' then Some (v', c)
            else if k = ''CDELT1'' then Some (w', cw)
            else if k \<in> set wave_keys then map_of hdr k else None)"
    by blast
  have "k \<in> dom (map_of (ohdr (p ! 1))) \<longleftrightarrow>
        k \<in> set (wave_keys @ [''EXTNAME'', ''DATASUM'', ''CHECKSUM''])" for k
  proof (cases "k \<in> set wave_keys")
    case True
    from extract_source_wave_keys [OF p fb hdr True] True show ?thesis
      unfolding assemble_nth(2) [OF asm] map_of_add_checksum S
      by (auto simp add: dom_def)
  next
    case False
    then show ?thesis
      unfolding assemble_nth(2) [OF asm] map_of_add_checksum S
      by (auto simp add: dom_def wave_keys_def)
  qed
  then have "dom (map_of (ohdr (p ! 1))) =
      set (wave_keys @ [''EXTNAME'', ''DATASUM'', ''CHECKSUM''])"
    by blast
  then show ?thesis by (simp only: dom_map_of_conv_image_fst)
qed

lemma extract_source_flux_keys:
  assumes p: "extract_source env img ext tmpl d i = Inr p" and k: "k \<in> set object_keys"
  shows "k \<in> fst ` set (ohdr (p ! 0))"
proof -
  from extract_source_context [OF p] obtain fb hdr vb vh where
    fb: "nth_hdu img (ext_fibres ext) = Inr fb" and
    hdr: "object_header tmpl (idata fb) i = Inr hdr" and
    mo: "motions_from_header env hdr = Inr (vb, vh)"
    by blast
  from k have k': "k \<noteq> ''DATASUM''" "k \<noteq> ''CHECKSUM''"
    by (auto simp add: object_keys_def)
  from extract_source_cards [OF p fb hdr mo k'] obtain v' c w' cw where
    F: "map_of (ohdr (p ! 0)) k =
       (if k = ''HISTORY'' then
               (case map_of hdr ''HISTORY'' of
                  None \<Rightarrow> Some (HStr ''Corrected for barycentric motion (V_BARY)'', [])
                | Some x \<Rightarrow> Some x)
        else ((map_of hdr)
              (''EXTNAME'' \<mapsto> (HStr ''input_spectrum'', ''Spectrum flux''),
               ''V_BARY'' \<mapsto> (HNum (to_kms env vb), ''Barycentric motion (km/s)''),
               ''V_HELIO'' \<mapsto> (HNum (to_kms env vh), ''Heliocentric motion (km/s)''),
               ''CRVAL1'' \<mapsto> (v', c), ''CDELT1'' \<mapsto> (w', cw))) k)"
    by blast
  from object_header_map [OF hdr] obtain name ra' dec' pmra pmdec mag descr where
    H: "map_of hdr = (map_of tmpl)
       (''FIBRE'' \<mapsto> (HInt (int i + 1), ''Fibre number''),
        ''NAME'' \<mapsto> (name, ''Input source name''),
        ''RA'' \<mapsto> (ra', ''Right Ascension (degrees)''),
        ''DEC'' \<mapsto> (dec', ''Declination (degrees)''),
        ''PMRA'' \<mapsto> (pmra, ''Proper motion in RA (mas/yr)''),
        ''PMDEC'' \<mapsto> (pmdec, ''Proper motion in DEC (mas/yr)''),
        ''MAG'' \<mapsto> (mag, ''Input source magnitude''),
        ''DESCR'' \<mapsto> (descr, ''Input source comment''))"
    by blast
  from k have "map_of (ohdr (p ! 0)) k \<noteq> None"
    unfolding F H by (auto simp add: object_keys_def split: option.splits)
  then have "k \<in> dom (map_of (ohdr (p ! 0)))" by (simp add: dom_def)
  then show ?thesis by (simp only: dom_map_of_conv_image_fst)
qed

lemma extract_source_sigma_extname:
  assumes p: "extract_source env img ext tmpl d i = Inr p"
  shows "hget ''EXTNAME'' (ohdr (p ! 1)) = Inr (HStr ''input_sigma'')"
proof -
  from extract_source_extensions(1) [OF p]
  have "map (\<lambda>h. hget ''EXTNAME'' (ohdr h)) p ! 1 = Inr (HStr ''input_sigma'')"
    by (simp split: if_splits)
  moreover from extract_source_extensions(1) [OF p] have "1 < length p"
    by (cases d) (auto dest: arg_cong [of _ _ length])
  ultimately show ?thesis by simp
qed

text \<open>
  C10. The header of the input_sigma extension holds the five wavelength-axis
  keywords, EXTNAME and the two sums, and nothing else. The velocities, the HISTORY
  note, the catalogue fields and the fibre number are in the header of the
  input_spectrum extension and not in that of input_sigma.
\<close>

theorem sigma_header_keywords:
  assumes "fits_open env f = Inr img" and "from_2dfdr env f d = (Inr srcs, st)"
    and "p \<in> set srcs"
  shows "hget ''EXTNAME'' (ohdr (p ! 1)) = Inr (HStr ''input_sigma'') \<and>
         fst ` set (ohdr (p ! 1)) =
           set (wave_keys @ [''EXTNAME'', ''DATASUM'', ''CHECKSUM'']) \<and>
         list_all (\<lambda>k. k \<in> fst ` set (ohdr (p ! 0)) \<and> k \<notin> fst ` set (ohdr (p ! 1)))
           object_keys"
proof -
  from from_2dfdr_products [OF assms(1,2)] obtain ext tmpl types where
    all: "list_all2 (\<lambda>i p. extract_source env img ext tmpl d i = Inr p)
       (program_indices types) srcs"
    by blast
  from list_all2_in_set [OF all assms(3)] obtain i where
    p: "extract_source env img ext tmpl d i = Inr p"
    by blast
  note keys = extract_source_sigma_keys [OF p]
  have "k \<in> fst ` set (ohdr (p ! 0)) \<and> k \<notin> fst ` set (ohdr (p ! 1))"
    if "k \<in> set object_keys" for k
  proof
    show "k \<in> fst ` set (ohdr (p ! 0))"
      by (rule extract_source_flux_keys [OF p that])
    from that show "k \<notin> fst ` set (ohdr (p ! 1))"
      unfolding keys by (auto simp add: object_keys_def wave_keys_def)
  qed
  then have "list_all (\<lambda>k. k \<in> fst ` set (ohdr (p ! 0)) \<and> k \<notin> fst ` set (ohdr (p ! 1)))
           object_keys"
    by (simp add: list_all_iff)
  with extract_source_sigma_extname [OF p] keys show ?thesis by (intro conjI)
qed

theorem sigma_header_keywords_witness:
  "fits_open ex_env ''combined.fits'' = Inr ex_image \<and>
   from_2dfdr ex_env ''combined.fits'' True =
     (Inr [[ex_flux_hdu, ex_sigma_hdu, ex_normed_flux, ex_normed_sigma, ex_ccf]], Closed) \<and>
   hget ''EXTNAME'' (ohdr ex_sigma_hdu) = Inr (HStr ''input_sigma'') \<and>
   fst ` set (ohdr ex_sigma_hdu) =
     set (wave_keys @ [''EXTNAME'', ''DATASUM'', ''CHECKSUM'']) \<and>
   list_all (\<lambda>k. k \<in> fst ` set (ohdr ex_flux_hdu) \<and> k \<notin> fst ` set (ohdr ex_sigma_hdu))
     object_keys"
proof -
  have in1: "[ex_flux_hdu, ex_sigma_hdu, ex_normed_flux, ex_normed_sigma, ex_ccf] \<in>
      set [[ex_flux_hdu, ex_sigma_hdu, ex_normed_flux, ex_normed_sigma, ex_ccf]]"
    by simp
  note a = sigma_header_keywords [OF ex_open ex_run in1, unfolded One_nat_def nth_Cons_Suc nth_Cons_0]
  note a1 = a [THEN conjunct1]
  note a2 = a [THEN conjunct2, THEN conjunct1]
  note a3 = a [THEN conjunct2, THEN conjunct2]
  from ex_open ex_run a1 a2 a3 show ?thesis by (intro conjI)
qed

lemma extract_source_wave_cards:
  assumes p: "extract_source env img ext tmpl d i = Inr p" and k: "k \<in> set wave_keys"
  shows "map_of (ohdr (p ! 1)) k = map_of (ohdr (p ! 0)) k"
    and "map_of (ohdr (p ! 0)) k \<noteq> None"
proof -
  from extract_source_context [OF p] obtain fb hdr vb vh where
    fb: "nth_hdu img (ext_fibres ext) = Inr fb" and
    hdr: "object_header tmpl (idata fb) i = Inr hdr" and
    mo: "motions_from_header env hdr = Inr (vb, vh)"
    by blast
  from k have k': "k \<noteq> ''DATASUM''" "k \<noteq> ''CHECKSUM''"
    by (auto simp add: wave_keys_def)
  from extract_source_cards [OF p fb hdr mo k'] obtain v' c w' cw where
    F: "map_of (ohdr (p ! 0)) k =
       (if k = ''HISTORY'' then
               (case map_of hdr ''HISTORY'' of
                  None \<Rightarrow> Some (HStr ''Corrected for barycentric motion (V_BARY)'', [])
                | Some x \<Rightarrow> Some x)
        else ((map_of hdr)
              (''EXTNAME'' \<mapsto> (HStr ''input_spectrum'', ''Spectrum flux''),
               ''V_BARY'' \<mapsto> (HNum (to_kms env vb), ''Barycentric motion (km/s)''),
               ''V_HELIO'' \<mapsto> (HNum (to_kms env vh), ''Heliocentric motion (km/s)''),
               ''CRVAL1'' \<mapsto> (v', c), ''CDELT1'' \<mapsto> (w', cw))) k)" and
    S: "map_of (ohdr (p ! 1)) k =
       (if k = ''EXTNAME'' then Some (HStr ''input_sigma'', ''Flux sigma'')
            else if k = ''CRVAL1'' then Some (v', c)
            else if k = ''CDELT1'' then Some (w', cw)
            else if k \<in> set wave_keys then map_of hdr k else None)"
    by blast
  from k show "map_of (ohdr (p ! 1)) k = map_of (ohdr (p ! 0)) k"
    unfolding F S by (auto simp add: wave_keys_def)
  from k extract_source_wave_keys [OF p fb hdr k] show "map_of (ohdr (p ! 0)) k \<noteq> None"
    unfolding F by (auto simp add: wave_keys_def)
qed

lemma extract_source_flux_extname:
  assumes p: "extract_source env img ext tmpl d i = Inr p"
  shows "hget ''EXTNAME'' (ohdr (p ! 0)) = Inr (HStr ''input_spectrum'')"
proof -
  from extract_source_extensions(1) [OF p]
  have "map (\<lambda>h. hget ''EXTNAME'' (ohdr h)) p ! 0 = Inr (HStr ''input_spectrum'')"
    by (simp split: if_splits)
  moreover from extract_source_extensions(1) [OF p] have "0 < length p"
    by (cases d) (auto dest: arg_cong [of _ _ length])
  ultimately show ?thesis by simp
qed

text \<open>
  C5. In every product the five wavelength-axis fields of input_sigma, values and
  comments, are those of input_spectrum, in the state in which the function returns
  them, that is after the Doppler correction and the checksums.
\<close>

theorem sigma_axis_equals_flux_axis:
  assumes "fits_open env f = Inr img" and "from_2dfdr env f d = (Inr srcs, st)"
    and "p \<in> set srcs"
  shows "hget ''EXTNAME'' (ohdr (p ! 0)) = Inr (HStr ''input_spectrum'') \<and>
         hget ''EXTNAME'' (ohdr (p ! 1)) = Inr (HStr ''input_sigma'') \<and>
         list_all (\<lambda>k. hget k (ohdr (p ! 1)) = hget k (ohdr (p ! 0)) \<and>
                       hcomment k (ohdr (p ! 1)) = hcomment k (ohdr (p ! 0)) \<and>
                       (\<exists>v c. hget k (ohdr (p ! 0)) = Inr v \<and> hcomment k (ohdr (p ! 0)) = Inr c))
           wave_keys"
proof -
  from from_2dfdr_products [OF assms(1,2)] obtain ext tmpl types where
    all: "list_all2 (\<lambda>i p. extract_source env img ext tmpl d i = Inr p)
       (program_indices types) srcs"
    by blast
  from list_all2_in_set [OF all assms(3)] obtain i where
    p: "extract_source env img ext tmpl d i = Inr p"
    by blast
  have "hget k (ohdr (p ! 1)) = hget k (ohdr (p ! 0)) \<and>
        hcomment k (ohdr (p ! 1)) = hcomment k (ohdr (p ! 0)) \<and>
        (\<exists>v c. hget k (ohdr (p ! 0)) = Inr v \<and> hcomment k (ohdr (p ! 0)) = Inr c)"
    if "k \<in> set wave_keys" for k
    using extract_source_wave_cards [OF p that]
    by (auto simp add: hget_def hcomment_def)
  then have "list_all (\<lambda>k. hget k (ohdr (p ! 1)) = hget k (ohdr (p ! 0)) \<and>
                       hcomment k (ohdr (p ! 1)) = hcomment k (ohdr (p ! 0)) \<and>
                       (\<exists>v c. hget k (ohdr (p ! 0)) = Inr v \<and> hcomment k (ohdr (p ! 0)) = Inr c))
           wave_keys"
    by (simp add: list_all_iff)
  with extract_source_flux_extname [OF p] extract_source_sigma_extname [OF p]
  show ?thesis by (intro conjI)
qed

theorem sigma_axis_equals_flux_axis_witness:
  "fits_open ex_env ''combined.fits'' = Inr ex_image \<and>
   from_2dfdr ex_env ''combined.fits'' True =
     (Inr [[ex_flux_hdu, ex_sigma_hdu, ex_normed_flux, ex_normed_sigma, ex_ccf]], Closed) \<and>
   hget ''EXTNAME'' (ohdr ex_flux_hdu) = Inr (HStr ''input_spectrum'') \<and>
   hget ''EXTNAME'' (ohdr ex_sigma_hdu) = Inr (HStr ''input_sigma'') \<and>
   list_all (\<lambda>k. hget k (ohdr ex_sigma_hdu) = hget k (ohdr ex_flux_hdu) \<and>
                 hcomment k (ohdr ex_sigma_hdu) = hcomment k (ohdr ex_flux_hdu) \<and>
                 (\<exists>v c. hget k (ohdr ex_flux_hdu) = Inr v \<and> hcomment k (ohdr ex_flux_hdu) = Inr c))
     wave_keys \<and>
   hget ''CRVAL1'' (ohdr ex_sigma_hdu) = Inr (HNum (4700 * (10001 / 10000)))"
proof -
  have in1: "[ex_flux_hdu, ex_sigma_hdu, ex_normed_flux, ex_normed_sigma, ex_ccf] \<in>
      set [[ex_flux_hdu, ex_sigma_hdu, ex_normed_flux, ex_normed_sigma, ex_ccf]]"
    by simp
  note a = sigma_axis_equals_flux_axis [OF ex_open ex_run in1,
      unfolded One_nat_def nth_Cons_Suc nth_Cons_0]
  note a1 = a [THEN conjunct1]
  note a2 = a [THEN conjunct2, THEN conjunct1]
  note a3 = a [THEN conjunct2, THEN conjunct2]
  have v: "hget ''CRVAL1'' (ohdr ex_sigma_hdu) = Inr (HNum (4700 * (10001 / 10000)))"
    by (simp add: ex_sigma_hdu_def ex_wave_cards_def hget_def)
  from ex_open ex_run a1 a2 a3 v show ?thesis by (intro conjI)
qed

lemma from_2dfdr_nth:
  assumes "fits_open env f = Inr img" and "from_2dfdr env f d = (Inr srcs, st)"
    and "fibre_types img = Inr types" and "n < length srcs"
  shows "\<exists>ext tmpl fb.
     read_2dfdr_extensions img = Inr ext \<and>
     header_template env img ext = Inr tmpl \<and>
     nth_hdu img (ext_fibres ext) = Inr fb \<and>
     extract_source env img ext tmpl d (program_indices types ! n) = Inr (srcs ! n)"
proof -
  from from_2dfdr_products [OF assms(1,2)] obtain ext tmpl fb types' where
    ext: "read_2dfdr_extensions img = Inr ext" and
    tmpl: "header_template env img ext = Inr tmpl" and
    fb: "nth_hdu img (ext_fibres ext) = Inr fb" and
    types': "table_column (idata fb) ''TYPE'' = Inr types'" and
    all: "list_all2 (\<lambda>i p. extract_source env img ext tmpl d i = Inr p)
       (program_indices types') srcs"
    by blast
  from assms(3) types' have "types' = types"
    unfolding fibre_types_eq(1) [OF ext fb] by simp
  with all have all': "list_all2 (\<lambda>i p. extract_source env img ext tmpl d i = Inr p)
       (program_indices types) srcs"
    by simp
  from list_all2_nthD2 [OF all' assms(4)]
  have "extract_source env img ext tmpl d (program_indices types ! n) = Inr (srcs ! n)" .
  with ext tmpl fb show ?thesis by blast
qed

lemma extract_source_radec:
  assumes p: "extract_source env img ext tmpl d i = Inr p"
    and fb: "nth_hdu img (ext_fibres ext) = Inr fb"
  shows "\<exists>ra dec ra' dec'.
     table_field (idata fb) i ''RA'' = Inr ra \<and> table_field (idata fb) i ''DEC'' = Inr dec \<and>
     hmul ra (180 / pi) = Inr ra' \<and> hmul dec (180 / pi) = Inr dec' \<and>
     hget ''RA'' (ohdr (p ! 0)) = Inr ra' \<and> hget ''DEC'' (ohdr (p ! 0)) = Inr dec'"
proof -
  from extract_source_context [OF p] fb obtain hdr vb vh where
    hdr: "object_header tmpl (idata fb) i = Inr hdr" and
    mo: "motions_from_header env hdr = Inr (vb, vh)"
    by auto
  from object_header_map [OF hdr] obtain name ra dec pmra pmdec mag descr ra' dec' where
    t: "table_field (idata fb) i ''RA'' = Inr ra" "table_field (idata fb) i ''DEC'' = Inr dec"
       "hmul ra (180 / pi) = Inr ra'" "hmul dec (180 / pi) = Inr dec'" and
    H: "map_of hdr = (map_of tmpl)
       (''FIBRE'' \<mapsto> (HInt (int i + 1), ''Fibre number''),
        ''NAME'' \<mapsto> (name, ''Input source name''),
        ''RA'' \<mapsto> (ra', ''Right Ascension (degrees)''),
        ''DEC'' \<mapsto> (dec', ''Declination (degrees)''),
        ''PMRA'' \<mapsto> (pmra, ''Proper motion in RA (mas/yr)''),
        ''PMDEC'' \<mapsto> (pmdec, ''Proper motion in DEC (mas/yr)''),
        ''MAG'' \<mapsto> (mag, ''Input source magnitude''),
        ''DESCR'' \<mapsto> (descr, ''Input source comment''))"
    by blast
  have k1: "''RA'' \<noteq> ''DATASUM''" "''RA'' \<noteq> ''CHECKSUM''" by simp_all
  have k2: "''DEC'' \<noteq> ''DATASUM''" "''DEC'' \<noteq> ''CHECKSUM''" by simp_all
  from extract_source_cards [OF p fb hdr mo k1]
  have "map_of (ohdr (p ! 0)) ''RA'' = map_of hdr ''RA''" by auto
  then have r: "hget ''RA'' (ohdr (p ! 0)) = Inr ra'"
    by (simp add: H hget_def)
  from extract_source_cards [OF p fb hdr mo k2]
  have "map_of (ohdr (p ! 0)) ''DEC'' = map_of hdr ''DEC''" by auto
  then have e: "hget ''DEC'' (ohdr (p ! 0)) = Inr dec'"
    by (simp add: H hget_def)
  from t r e show ?thesis by blast
qed

text \<open>
  C2. The RA and DEC fields of the input_spectrum header are the RA and DEC of the
  catalogue row of the object multiplied by 180/pi; a catalogue RA of pi gives 180.
  Floating-point numbers are taken as reals, in which the product is exactly 180.
\<close>

theorem ra_dec_in_degrees:
  assumes "fits_open env f = Inr img" and "from_2dfdr env f d = (Inr srcs, st)"
    and "fibre_types img = Inr types" and "n < length srcs"
  shows "\<exists>ra dec ra' dec'.
     catalog_field img (program_indices types ! n) ''RA'' = Inr ra \<and>
     catalog_field img (program_indices types ! n) ''DEC'' = Inr dec \<and>
     hmul ra (180 / pi) = Inr ra' \<and> hmul dec (180 / pi) = Inr dec' \<and>
     hget ''RA'' (ohdr (srcs ! n ! 0)) = Inr ra' \<and>
     hget ''DEC'' (ohdr (srcs ! n ! 0)) = Inr dec' \<and>
     (ra = HNum pi \<longrightarrow> hget ''RA'' (ohdr (srcs ! n ! 0)) = Inr (HNum 180))"
proof -
  from from_2dfdr_nth [OF assms] obtain ext tmpl fb where
    ext: "read_2dfdr_extensions img = Inr ext" and
    fb: "nth_hdu img (ext_fibres ext) = Inr fb" and
    p: "extract_source env img ext tmpl d (program_indices types ! n) = Inr (srcs ! n)"
    by blast
  from extract_source_radec [OF p fb] obtain ra dec ra' dec' where
    a: "table_field (idata fb) (program_indices types ! n) ''RA'' = Inr ra"
       "table_field (idata fb) (program_indices types ! n) ''DEC'' = Inr dec" and
    b: "hmul ra (180 / pi) = Inr ra'" "hmul dec (180 / pi) = Inr dec'"
       "hget ''RA'' (ohdr (srcs ! n ! 0)) = Inr ra'"
       "hget ''DEC'' (ohdr (srcs ! n ! 0)) = Inr dec'"
    by blast
  from a have c: "catalog_field img (program_indices types ! n) ''RA'' = Inr ra"
    "catalog_field img (program_indices types ! n) ''DEC'' = Inr dec"
    by (simp_all add: fibre_types_eq(2) [OF ext fb])
  have "hget ''RA'' (ohdr (srcs ! n ! 0)) = Inr (HNum 180)" if "ra = HNum pi"
    using b(1,3) that by simp
  with b c show ?thesis by blast
qed

theorem ra_dec_in_degrees_witness:
  "fits_open ex_env ''combined.fits'' = Inr ex_image \<and>
   from_2dfdr ex_env ''combined.fits'' True =
     (Inr [[ex_flux_hdu, ex_sigma_hdu, ex_normed_flux, ex_normed_sigma, ex_ccf]], Closed) \<and>
   fibre_types ex_image = Inr [HStr ''S'', HStr ''P''] \<and>
   program_indices [HStr ''S'', HStr ''P''] ! 0 = 1 \<and>
   catalog_field ex_image 1 ''RA'' = Inr (HNum pi) \<and>
   hget ''RA'' (ohdr ex_flux_hdu) = Inr (HNum 180)"
proof -
  have n: "(0::nat) < length [[ex_flux_hdu, ex_sigma_hdu, ex_normed_flux, ex_normed_sigma, ex_ccf]]"
    by simp
  have i: "program_indices [HStr ''S'', HStr ''P''] ! 0 = 1"
    by (simp add: ex_indices)
  from ra_dec_in_degrees [OF ex_open ex_run ex_types n] obtain ra where
    a: "catalog_field ex_image (program_indices [HStr ''S'', HStr ''P''] ! 0) ''RA'' = Inr ra" and
    b: "ra = HNum pi \<longrightarrow>
        hget ''RA'' (ohdr ([[ex_flux_hdu, ex_sigma_hdu, ex_normed_flux, ex_normed_sigma, ex_ccf]]
          ! 0 ! 0)) = Inr (HNum 180)"
    by blast
  have c: "catalog_field ex_image 1 ''RA'' = Inr (HNum pi)"
    by (simp add: catalog_field_def fibre_table_def ex_read)
       (simp add: ex_ext_def ex_defs)
  from a c have "ra = HNum pi" unfolding i by simp
  with b have "hget ''RA'' (ohdr ex_flux_hdu) = Inr (HNum 180)" by simp
  with ex_open ex_run ex_types i c show ?thesis by (intro conjI)
qed

end
